theory Spec2Isabelle
  imports Complex_Main "HOL-Library.Sublist"
begin

section \<open>Host model: errors and document nodes\<close>

text \<open>
  The functions of the repository are feature-detection cascades over the host's document
  tree.  An exception of the source is a value of type \<open>error\<close>; a function that can
  throw returns \<open>error + 'a\<close> with \<open>Inl\<close> for the exception.  The string carried by
  an error is the start of the message the source builds.
\<close>

datatype error = TypeError string | RangeError string | ReferenceError string
  | SyntaxError string | DOMException string

text \<open>
  A node of the document tree.  \<open>nodeType\<close> is the DOM node type (1 Element, 2 Attr,
  3 Text, 4 CDATASection, 7 ProcessingInstruction, 8 Comment, 9 Document,
  10 DocumentType, 11 DocumentFragment).  \<open>props\<close> lists the property names for which
  \<^verbatim>\<open>"name" in node\<close> is true in the running host: the source probes them before it uses
  them, so they are data of the model and not fixed by it.  \<open>nodeValue\<close> is the character
  data of a Text, Comment or similar node, and \<open>childNodes\<close> is the live list of children
  in document order.
\<close>

datatype node = Node (nodeType: nat) (props: "string list") (nodeValue: string)
  (childNodes: "node list")

definition has_prop :: "string \<Rightarrow> node \<Rightarrow> bool" where
  "has_prop name n = (name \<in> set (props n))"

definition firstChild :: "node \<Rightarrow> node option" where
  "firstChild n = (case childNodes n of [] \<Rightarrow> None | c # _ \<Rightarrow> Some c)"

definition lastChild :: "node \<Rightarrow> node option" where
  "lastChild n = (case childNodes n of [] \<Rightarrow> None | _ \<Rightarrow> Some (last (childNodes n)))"

section \<open>GetAllComments.js: the two backup tree walks\<close>

text \<open>
  \<^verbatim>\<open>bySiblingTraversal(nodeParent, validFn)\<close> starts at \<^verbatim>\<open>nodeParent.firstChild\<close> and
  follows \<^verbatim>\<open>nextSibling\<close> until it is null.  The cursor \<^verbatim>\<open>current\<close> together with the
  chain of its next siblings is the list \<open>current # siblings\<close>; \<^verbatim>\<open>current.nextSibling\<close>
  is the head of \<open>siblings\<close>, and null when \<open>siblings\<close> is empty.  The validity function
  may throw (the search variant calls \<^verbatim>\<open>getCommentText\<close>), so it returns \<open>error + bool\<close>.
\<close>

fun bySiblingTraversal :: "(node \<Rightarrow> error + bool) \<Rightarrow> node \<Rightarrow> error + node list"
  and sibling_loop :: "(node \<Rightarrow> error + bool) \<Rightarrow> node list \<Rightarrow> node list \<Rightarrow> error + node list"
where
  "bySiblingTraversal validFn (Node t ps v cs) = sibling_loop validFn cs []"
| "sibling_loop validFn [] result = Inr result"
| "sibling_loop validFn (current # siblings) result =
     (case validFn current of
        Inl e \<Rightarrow> Inl e
      | Inr True \<Rightarrow> sibling_loop validFn siblings (result @ [current])
      | Inr False \<Rightarrow>
          (if firstChild current \<noteq> None then
             (case bySiblingTraversal validFn current of
                Inl e \<Rightarrow> Inl e
              | Inr sub \<Rightarrow> sibling_loop validFn siblings (result @ sub))
           else sibling_loop validFn siblings result))"

text \<open>
  The two functions \<^verbatim>\<open>byChildNodes\<close> chooses between for \<^verbatim>\<open>hasChildFn\<close>:
  \<^verbatim>\<open>node.hasChildNodes()\<close> when the container has that method, and
  \<^verbatim>\<open>!!node.childNodes.length\<close> otherwise.
\<close>

definition hasChildNodes :: "node \<Rightarrow> bool" where
  "hasChildNodes n = (childNodes n \<noteq> [])"

definition hasChildByLength :: "node \<Rightarrow> bool" where
  "hasChildByLength n = (length (childNodes n) \<noteq> 0)"

text \<open>
  \<^verbatim>\<open>childNodesTraversal(nodeParent, validFn, hasChildFn)\<close> is the loop
  \<^verbatim>\<open>for (index = 0; index < childNodes.length; index++)\<close> over the child list, reading
  \<^verbatim>\<open>childNodes[index]\<close>.
\<close>

function childNodesTraversal ::
    "(node \<Rightarrow> error + bool) \<Rightarrow> (node \<Rightarrow> bool) \<Rightarrow> node \<Rightarrow> error + node list"
  and childNodes_loop ::
    "(node \<Rightarrow> error + bool) \<Rightarrow> (node \<Rightarrow> bool) \<Rightarrow> node list \<Rightarrow> nat \<Rightarrow> node list
      \<Rightarrow> error + node list"
where
  "childNodesTraversal validFn hasChildFn nodeParent =
     childNodes_loop validFn hasChildFn (childNodes nodeParent) 0 []"
| "childNodes_loop validFn hasChildFn cs index result =
     (if index < length cs then
        (case validFn (cs ! index) of
           Inl e \<Rightarrow> Inl e
         | Inr True \<Rightarrow>
             childNodes_loop validFn hasChildFn cs (index + 1) (result @ [cs ! index])
         | Inr False \<Rightarrow>
             (if hasChildFn (cs ! index) then
                (case childNodesTraversal validFn hasChildFn (cs ! index) of
                   Inl e \<Rightarrow> Inl e
                 | Inr sub \<Rightarrow> childNodes_loop validFn hasChildFn cs (index + 1) (result @ sub))
              else childNodes_loop validFn hasChildFn cs (index + 1) result))
      else Inr result)"
  by pat_completeness auto

lemma size_nth_less_size_list:
  "index < length cs \<Longrightarrow> size (cs ! index) < size_list size cs"
proof (induction cs arbitrary: index)
  case Nil
  then show ?case by simp
next
  case (Cons c cs)
  show ?case
  proof (cases index)
    case 0
    then show ?thesis by simp
  next
    case (Suc k)
    with Cons.prems have "k < length cs" by simp
    from Cons.IH [OF this] Suc show ?thesis by simp
  qed
qed

lemma size_list_childNodes_less: "size_list size (childNodes n) < size n"
  by (cases n) simp

termination childNodesTraversal
  apply (relation "measures
      [\<lambda>x. case x of Inl (_, _, p) \<Rightarrow> size p | Inr (_, _, cs, _, _) \<Rightarrow> size_list size cs,
       \<lambda>x. case x of Inl _ \<Rightarrow> 0 | Inr (_, _, cs, index, _) \<Rightarrow> length cs - index]")
       apply (auto simp: size_list_childNodes_less size_nth_less_size_list)
  done

declare childNodesTraversal.simps [simp del] childNodes_loop.simps [simp del]

section \<open>Equivalence of the two walks\<close>

text \<open>
  The index loop started at \<open>index\<close> does what the sibling loop does on the children from
  \<open>index\<close> on, whatever \<open>hasChildFn\<close> of the two is used.
\<close>

lemma firstChild_iff: "firstChild n \<noteq> None \<longleftrightarrow> childNodes n \<noteq> []"
  by (simp add: firstChild_def split: list.splits)

lemma bySiblingTraversal_unfold:
  "bySiblingTraversal validFn n = sibling_loop validFn (childNodes n) []"
  by (cases n) simp

lemma childNodes_loop_done:
  "\<not> index < length cs \<Longrightarrow> childNodes_loop validFn hasChildFn cs index result = Inr result"
  by (subst childNodes_loop.simps) simp

lemma childNodes_loop_step:
  "index < length cs \<Longrightarrow>
   childNodes_loop validFn hasChildFn cs index result =
     (case validFn (cs ! index) of
        Inl e \<Rightarrow> Inl e
      | Inr True \<Rightarrow>
          childNodes_loop validFn hasChildFn cs (index + 1) (result @ [cs ! index])
      | Inr False \<Rightarrow>
          (if hasChildFn (cs ! index) then
             (case childNodesTraversal validFn hasChildFn (cs ! index) of
                Inl e \<Rightarrow> Inl e
              | Inr sub \<Rightarrow> childNodes_loop validFn hasChildFn cs (index + 1) (result @ sub))
           else childNodes_loop validFn hasChildFn cs (index + 1) result))"
  by (subst childNodes_loop.simps) simp

lemma walks_agree:
  "(\<forall>n. hasChildFn n = (childNodes n \<noteq> [])) \<Longrightarrow>
     childNodesTraversal validFn hasChildFn p = bySiblingTraversal validFn p"
  "(\<forall>n. hasChildFn n = (childNodes n \<noteq> [])) \<Longrightarrow>
     childNodes_loop validFn hasChildFn cs index result =
       sibling_loop validFn (drop index cs) result"
proof (induction validFn hasChildFn p and validFn hasChildFn cs index result
    rule: childNodesTraversal_childNodes_loop.induct)
  case (1 validFn hasChildFn nodeParent)
  then show ?case
    by (simp add: bySiblingTraversal_unfold childNodesTraversal.simps)
next
  case (2 validFn hasChildFn cs index result)
  note hc = "2.prems"
  show ?case
  proof (cases "index < length cs")
    case False
    then show ?thesis by (simp add: childNodes_loop_done)
  next
    case True
    then have d: "drop index cs = cs ! index # drop (Suc index) cs"
      by (simp add: Cons_nth_drop_Suc)
    note step = childNodes_loop_step [OF True, of validFn hasChildFn result]
    show ?thesis
    proof (cases "validFn (cs ! index)")
      case (Inl e)
      with step d show ?thesis by simp
    next
      case (Inr b)
      show ?thesis
      proof (cases b)
        case bt: True
        have "childNodes_loop validFn hasChildFn cs (index + 1) (result @ [cs ! index]) =
            sibling_loop validFn (drop (index + 1) cs) (result @ [cs ! index])"
          using "2.IH"(1) True Inr bt hc by blast
        with step d Inr bt show ?thesis by simp
      next
        case bf: False
        show ?thesis
        proof (cases "hasChildFn (cs ! index)")
          case nochild: False
          then have "firstChild (cs ! index) = None"
            using hc firstChild_iff [of "cs ! index"] by simp
          moreover have "childNodes_loop validFn hasChildFn cs (index + 1) result =
              sibling_loop validFn (drop (index + 1) cs) result"
            using "2.IH"(4) True Inr bf nochild hc by blast
          ultimately show ?thesis using step d Inr bf nochild by simp
        next
          case child: True
          then have fc: "firstChild (cs ! index) \<noteq> None"
            using hc firstChild_iff [of "cs ! index"] by simp
          have sub: "childNodesTraversal validFn hasChildFn (cs ! index) =
              bySiblingTraversal validFn (cs ! index)"
            using "2.IH"(2) True Inr bf child hc by blast
          show ?thesis
          proof (cases "bySiblingTraversal validFn (cs ! index)")
            case e: (Inl e)
            with sub step d Inr bf child fc show ?thesis by simp
          next
            case r: (Inr subres)
            from sub r have "childNodesTraversal validFn hasChildFn (cs ! index) = Inr subres"
              by simp
            then have "childNodes_loop validFn hasChildFn cs (index + 1) (result @ subres) =
                sibling_loop validFn (drop (index + 1) cs) (result @ subres)"
              using "2.IH"(3) True Inr bf child hc by blast
            with step d Inr bf child fc sub r show ?thesis by simp
          qed
        qed
      qed
    qed
  qed
qed

text \<open>
  Claim C6.  For every finite document tree and every comment-validity function, the
  sibling-pointer walk and the index walk over the child lists return the same array of
  nodes in the same order (or throw the same exception), with either of the two
  \<^verbatim>\<open>hasChildFn\<close> functions of \<^verbatim>\<open>byChildNodes\<close>.
\<close>

theorem C6_walks_equivalent:
  "childNodesTraversal validFn hasChildNodes p = bySiblingTraversal validFn p \<and>
   childNodesTraversal validFn hasChildByLength p = bySiblingTraversal validFn p"
  by (rule conjI; rule walks_agree(1); simp add: hasChildNodes_def hasChildByLength_def)

section \<open>removeChildren: values, host globals and host operations\<close>

text \<open>
  An object that is not a node of a document.  Its own properties are a list of keys and
  values (the first entry of a key counts); a key is a property name or an array index.
  The values are undefined, null, a Boolean, an integer, the empty string (which the
  source itself assigns) or another such object.  None of them can be called: a property
  that holds a function written by the caller runs the caller's code, which can change
  anything or never return, and is outside this model.  The prototype of such an object is \<^verbatim>\<open>Object.prototype\<close>, which has none of the
  property names the source probes with \<^verbatim>\<open>in\<close> or reads.
\<close>

datatype key = Name string | Index nat

datatype plain = PUndefined | PNull | PBoolean bool | PNumber int | PEmptyString
  | PObject "(key \<times> plain) list"

fun truthy_plain :: "plain \<Rightarrow> bool" where
  "truthy_plain PUndefined = False"
| "truthy_plain PNull = False"
| "truthy_plain (PBoolean b) = b"
| "truthy_plain (PNumber k) = (k \<noteq> 0)"
| "truthy_plain PEmptyString = False"
| "truthy_plain (PObject ms) = True"

text \<open>\<^verbatim>\<open>"name" in obj\<close> and \<^verbatim>\<open>obj.name\<close> on the properties \<open>ms\<close> of an object.\<close>

definition has_key :: "key \<Rightarrow> (key \<times> plain) list \<Rightarrow> bool" where
  "has_key k ms = (map_of ms k \<noteq> None)"

definition read :: "(key \<times> plain) list \<Rightarrow> key \<Rightarrow> plain" where
  "read ms k = (case map_of ms k of None \<Rightarrow> PUndefined | Some v \<Rightarrow> v)"

text \<open>
  A value passed to a parameter.  \<open>JObject inst n\<close> is a node of a document, with the
  properties and children described by \<open>n\<close> and with working DOM methods; \<open>inst\<close> says
  whether it inherits from the \<^verbatim>\<open>Node\<close> interface the code reads as the global \<^verbatim>\<open>Node\<close>
  (\<^verbatim>\<open>obj instanceof Node\<close>; a node of another window does not).  \<open>JPlain ms\<close> is an object
  that is not a node, with the properties \<open>ms\<close>.
\<close>

datatype jsval = JUndefined | JNull | JBoolean bool | JNumber int | JString string
  | JObject bool node | JPlain "(key \<times> plain) list"

fun truthy :: "jsval \<Rightarrow> bool" where
  "truthy JUndefined = False"
| "truthy JNull = False"
| "truthy (JBoolean b) = b"
| "truthy (JNumber k) = (k \<noteq> 0)"
| "truthy (JString s) = (s \<noteq> [])"
| "truthy (JObject inst n) = True"
| "truthy (JPlain ms) = True"

text \<open>
  The globals the source tests with \<^verbatim>\<open>Node ? ... : ...\<close> and \<^verbatim>\<open>Element ? ... : ...\<close>:
  \<open>hasNode\<close> and \<open>hasElement\<close> say whether the global is truthy.  The test presupposes a
  declared identifier whose value may be undefined, the state in which other files of
  the library leave such globals (\<^verbatim>\<open>Element = window.Element\<close> in \<^verbatim>\<open>setApiRef()\<close> of
  GetAllComments.js, \<^verbatim>\<open>Node = window.Node\<close> beside the \<^verbatim>\<open>getRootNode\<close> polyfill).  A host
  in which \<^verbatim>\<open>Node\<close> is not declared at all is \<open>NodeNotDeclared\<close>: there the evaluation of
  \<^verbatim>\<open>Node\<close> is a ReferenceError.  A host in which \<^verbatim>\<open>Element\<close> is not declared is outside
  this model.
\<close>

record host =
  hasNode :: bool
  hasElement :: bool


text \<open>
  \<^verbatim>\<open>isNode(obj)\<close> is \<^verbatim>\<open>Node ? obj instanceof Node : !!(obj && obj.removeChild)\<close>.  A node
  of a document has the method \<^verbatim>\<open>removeChild\<close> (the source calls it without probing);
  another object has what its property \<^verbatim>\<open>removeChild\<close> holds, and a primitive value has
  no such property.
\<close>

definition removeChild_truthy :: "jsval \<Rightarrow> bool" where
  "removeChild_truthy obj =
     (case obj of
        JObject inst n \<Rightarrow> True
      | JPlain ms \<Rightarrow> truthy_plain (read ms (Name ''removeChild''))
      | _ \<Rightarrow> False)"

definition instanceofNode :: "jsval \<Rightarrow> bool" where
  "instanceofNode obj = (case obj of JObject inst n \<Rightarrow> inst | _ \<Rightarrow> False)"

definition isNode :: "host \<Rightarrow> jsval \<Rightarrow> bool" where
  "isNode h obj =
     (if hasNode h then instanceofNode obj else truthy obj \<and> removeChild_truthy obj)"

text \<open>
  \<^verbatim>\<open>isElement(obj)\<close> is \<^verbatim>\<open>Element ? obj instanceof Element : !!(obj && obj.nodeType === 9)\<close>.
  A child node is an instance of \<^verbatim>\<open>Element\<close> exactly when its node type is 1.
\<close>

definition isElement :: "host \<Rightarrow> node \<Rightarrow> bool" where
  "isElement h obj = (if hasElement h then nodeType obj = 1 else nodeType obj = 9)"

text \<open>
  Host operations on a parent node.  A reference to an attached child denotes the child at
  one position of the live child list, so \<open>removeChild n i\<close> removes the child at
  position \<open>i\<close>; the source only ever passes a child it has just read from the list.
  \<^verbatim>\<open>replaceChildren()\<close> with no argument and \<^verbatim>\<open>innerHTML = ''\<close> leave no child.
  \<^verbatim>\<open>textContent = ''\<close> follows the DOM definition of the setter: on an Element,
  Entity, EntityReference or DocumentFragment (types 1, 5, 6, 11) it removes every child, on
  an Attr (type 2) it sets the value of the attribute to the empty string (and leaves no
  child, where an Attr has children), on character data (types 3, 4, 7, 8) it sets the
  data to the empty string, and on a Document, DocumentType or Notation (types 9, 10, 12)
  it has no effect.
\<close>

definition removeChild :: "node \<Rightarrow> nat \<Rightarrow> node" where
  "removeChild n i =
     Node (nodeType n) (props n) (nodeValue n)
       (take i (childNodes n) @ drop (Suc i) (childNodes n))"

definition replaceChildren :: "node \<Rightarrow> node" where
  "replaceChildren n = Node (nodeType n) (props n) (nodeValue n) []"

definition set_innerHTML_empty :: "node \<Rightarrow> node" where
  "set_innerHTML_empty n = Node (nodeType n) (props n) (nodeValue n) []"

definition set_textContent_empty :: "node \<Rightarrow> node" where
  "set_textContent_empty n =
     (if nodeType n \<in> {1, 5, 6, 11} then Node (nodeType n) (props n) (nodeValue n) []
      else if nodeType n = 2 then Node (nodeType n) (props n) [] []
      else if nodeType n \<in> {3, 4, 7, 8} then Node (nodeType n) (props n) [] (childNodes n)
      else n)"

text \<open>\<^verbatim>\<open>childElementCount\<close> and \<^verbatim>\<open>children.length\<close>: the number of Element children.\<close>

definition childElementCount :: "node \<Rightarrow> nat" where
  "childElementCount n = length (filter (\<lambda>c. nodeType c = 1) (childNodes n))"

lemma length_childNodes_removeChild:
  "i < length (childNodes n) \<Longrightarrow>
     length (childNodes (removeChild n i)) < length (childNodes n)"
  by (simp add: removeChild_def)

section \<open>removeChildren: the removal loops\<close>

text \<open>\<^verbatim>\<open>while (node.firstChild) { node.removeChild(node.lastChild); }\<close>\<close>

function while_firstChild_remove_lastChild :: "node \<Rightarrow> node" where
  "while_firstChild_remove_lastChild n =
     (if firstChild n \<noteq> None
      then while_firstChild_remove_lastChild (removeChild n (length (childNodes n) - 1))
      else n)"
  by pat_completeness auto
termination
  by (relation "measure (\<lambda>n. length (childNodes n))")
    (auto simp: firstChild_def removeChild_def split: list.splits)

text \<open>\<^verbatim>\<open>while (node.lastChild) { node.removeChild(node.firstChild); }\<close>\<close>

function while_lastChild_remove_firstChild :: "node \<Rightarrow> node" where
  "while_lastChild_remove_firstChild n =
     (if lastChild n \<noteq> None
      then while_lastChild_remove_firstChild (removeChild n 0)
      else n)"
  by pat_completeness auto
termination
  by (relation "measure (\<lambda>n. length (childNodes n))")
    (auto simp: lastChild_def removeChild_def split: list.splits)

text \<open>
  \<^verbatim>\<open>while (childNodes.length) { node.removeChild(childNodes[childNodes.length - 1]); }\<close>
\<close>

function while_childNodes_remove_last :: "node \<Rightarrow> node" where
  "while_childNodes_remove_last n =
     (if length (childNodes n) \<noteq> 0
      then while_childNodes_remove_last (removeChild n (length (childNodes n) - 1))
      else n)"
  by pat_completeness auto
termination
  by (relation "measure (\<lambda>n. length (childNodes n))") (auto simp: removeChild_def)

text \<open>\<^verbatim>\<open>while (childNodes.length) { node.removeChild(childNodes[0]); }\<close>\<close>

function while_childNodes_remove_first :: "node \<Rightarrow> node" where
  "while_childNodes_remove_first n =
     (if length (childNodes n) \<noteq> 0
      then while_childNodes_remove_first (removeChild n 0)
      else n)"
  by pat_completeness auto
termination
  by (relation "measure (\<lambda>n. length (childNodes n))") (auto simp: removeChild_def)

text \<open>
  The forward walks of \<^verbatim>\<open>elForBySibl\<close> and \<^verbatim>\<open>elForByChildNodes\<close>.  The cursor
  (\<^verbatim>\<open>current\<close>, or \<^verbatim>\<open>index\<close>) is the position \<open>i\<close> in the live child list; it is null, or the
  loop test fails, when \<open>i\<close> is past the end.  Removing the child at \<open>i\<close> after saving its
  next sibling leaves the cursor at position \<open>i\<close> of the shorter list; otherwise the
  cursor moves to \<open>i + 1\<close>.
\<close>

function elForBySibl_loop :: "host \<Rightarrow> node \<Rightarrow> nat \<Rightarrow> node" where
  "elForBySibl_loop h n i =
     (if i < length (childNodes n) then
        (if isElement h (childNodes n ! i) then elForBySibl_loop h (removeChild n i) i
         else elForBySibl_loop h n (i + 1))
      else n)"
  by pat_completeness auto
termination
  by (relation "measures [\<lambda>(h, n, i). length (childNodes n), \<lambda>(h, n, i). length (childNodes n) - i]")
    (auto simp: removeChild_def)

function elForByChildNodes_loop :: "host \<Rightarrow> node \<Rightarrow> nat \<Rightarrow> node" where
  "elForByChildNodes_loop h n index =
     (if index < length (childNodes n) then
        (if isElement h (childNodes n ! index)
         then elForByChildNodes_loop h (removeChild n index) index
         else elForByChildNodes_loop h n (index + 1))
      else n)"
  by pat_completeness auto
termination
  by (relation "measures [\<lambda>(h, n, i). length (childNodes n), \<lambda>(h, n, i). length (childNodes n) - i]")
    (auto simp: removeChild_def)

text \<open>
  The backward walks of \<^verbatim>\<open>elBackBySibl\<close> and \<^verbatim>\<open>elBackByChildNodes\<close>.  The argument \<open>k\<close>
  is one more than the position of the cursor: \<^verbatim>\<open>current\<close> is the child at position
  \<open>k - 1\<close> (\<^verbatim>\<open>index = k - 1\<close>), and \<open>k = 0\<close> is the null cursor (\<^verbatim>\<open>index = -1\<close>).
  Removing the child at the cursor does not move the children before it.
\<close>

fun elBackBySibl_loop :: "host \<Rightarrow> node \<Rightarrow> nat \<Rightarrow> node" where
  "elBackBySibl_loop h n 0 = n"
| "elBackBySibl_loop h n (Suc i) =
     (if isElement h (childNodes n ! i) then elBackBySibl_loop h (removeChild n i) i
      else elBackBySibl_loop h n i)"

fun elBackByChildNodes_loop :: "host \<Rightarrow> node \<Rightarrow> nat \<Rightarrow> node" where
  "elBackByChildNodes_loop h n 0 = n"
| "elBackByChildNodes_loop h n (Suc index) =
     (if isElement h (childNodes n ! index)
      then elBackByChildNodes_loop h (removeChild n index) index
      else elBackByChildNodes_loop h n index)"


section \<open>removeChildren: the removal methods\<close>

text \<open>
  Every method returns the Boolean it returns in the source together with the parent node
  after the call.
\<close>

definition removeAll :: "node \<Rightarrow> bool \<times> node" where
  "removeAll n =
     (if has_prop ''replaceChildren'' n then (True, replaceChildren n)
      else if has_prop ''textContent'' n then (True, set_textContent_empty n)
      else if has_prop ''innerHTML'' n then (True, set_innerHTML_empty n)
      else if has_prop ''firstChild'' n \<and> has_prop ''lastChild'' n
        then (True, while_firstChild_remove_lastChild n)
      else if has_prop ''childNodes'' n then (True, while_childNodes_remove_last n)
      else (False, n))"

definition removeAllForwards :: "node \<Rightarrow> bool \<times> node" where
  "removeAllForwards n =
     (if has_prop ''firstChild'' n \<and> has_prop ''lastChild'' n
        then (True, while_lastChild_remove_firstChild n)
      else if has_prop ''childNodes'' n then (True, while_childNodes_remove_first n)
      else (False, n))"

definition removeAllBackwards :: "node \<Rightarrow> bool \<times> node" where
  "removeAllBackwards n =
     (if has_prop ''firstChild'' n \<and> has_prop ''lastChild'' n
        then (True, while_firstChild_remove_lastChild n)
      else if has_prop ''childNodes'' n then (True, while_childNodes_remove_last n)
      else (False, n))"

definition hasChildElements :: "node \<Rightarrow> bool" where
  "hasChildElements obj =
     (if has_prop ''childElementCount'' obj then childElementCount obj \<noteq> 0
      else if has_prop ''children'' obj then childElementCount obj \<noteq> 0
      else True)"

definition elForBySibl :: "host \<Rightarrow> node \<Rightarrow> bool \<times> node" where
  "elForBySibl h n =
     (if \<not> hasChildElements n then (True, n)
      else if has_prop ''firstChild'' n \<and> has_prop ''nextSibling'' n
        then (True, elForBySibl_loop h n 0)
      else (False, n))"

definition elBackBySibl :: "host \<Rightarrow> node \<Rightarrow> bool \<times> node" where
  "elBackBySibl h n =
     (if \<not> hasChildElements n then (True, n)
      else if has_prop ''lastChild'' n \<and> has_prop ''previousSibling'' n
        then (True, elBackBySibl_loop h n (length (childNodes n)))
      else (False, n))"

definition elForByChildNodes :: "host \<Rightarrow> node \<Rightarrow> bool \<times> node" where
  "elForByChildNodes h n =
     (if has_prop ''childNodes'' n then (True, elForByChildNodes_loop h n 0)
      else (False, n))"

definition elBackByChildNodes :: "host \<Rightarrow> node \<Rightarrow> bool \<times> node" where
  "elBackByChildNodes h n =
     (if has_prop ''childNodes'' n
        then (True, elBackByChildNodes_loop h n (length (childNodes n)))
      else (False, n))"

text \<open>
  \<^verbatim>\<open>a() || b() || c() || false\<close>: the next method runs only when the one before returned
  false, on the node as that one left it.
\<close>

definition orElse :: "bool \<times> node \<Rightarrow> (node \<Rightarrow> bool \<times> node) \<Rightarrow> bool \<times> node" where
  "orElse r f = (if fst r then r else f (snd r))"

definition removeElements :: "host \<Rightarrow> node \<Rightarrow> bool \<times> node" where
  "removeElements h n =
     orElse (orElse (elBackBySibl h n) (elForBySibl h)) (elBackByChildNodes h)"

definition removeElForwards :: "host \<Rightarrow> node \<Rightarrow> bool \<times> node" where
  "removeElForwards h n = orElse (elForBySibl h n) (elForByChildNodes h)"

definition removeElBackwards :: "host \<Rightarrow> node \<Rightarrow> bool \<times> node" where
  "removeElBackwards h n = orElse (elBackBySibl h n) (elBackByChildNodes h)"

definition tryMethods :: "host \<Rightarrow> node \<Rightarrow> jsval \<Rightarrow> jsval \<Rightarrow> bool \<times> node" where
  "tryMethods h n removeEls forwards =
     (if forwards = JUndefined then
        (if truthy removeEls then removeElements h n else removeAll n)
      else if truthy forwards then
        (if truthy removeEls then removeElForwards h n else removeAllForwards n)
      else
        (if truthy removeEls then removeElBackwards h n else removeAllBackwards n))"

section \<open>removeChildren: the removal methods on an object that is not a node\<close>

text \<open>
  Reading a property of a value: a TypeError of the engine on undefined and null, the
  property of an object, the length 0 of the empty string, and undefined for every other
  read the source makes.
\<close>

fun get_property :: "plain \<Rightarrow> key \<Rightarrow> error + plain" where
  "get_property PUndefined k = Inl (TypeError ''Cannot read properties of undefined'')"
| "get_property PNull k = Inl (TypeError ''Cannot read properties of null'')"
| "get_property (PBoolean b) k = Inr PUndefined"
| "get_property (PNumber n) k = Inr PUndefined"
| "get_property PEmptyString k = Inr (if k = Name ''length'' then PNumber 0 else PUndefined)"
| "get_property (PObject ms) k = Inr (read ms k)"

text \<open>
  The conversion to a number made by \<^verbatim>\<open><\<close>, \<^verbatim>\<open>>=\<close> and \<^verbatim>\<open>-\<close>; \<open>None\<close> is NaN.  An object
  is converted by the \<^verbatim>\<open>valueOf\<close> and \<^verbatim>\<open>toString\<close> it inherits, which gives NaN, unless a
  property \<^verbatim>\<open>toString\<close> of its own (not callable here) hides the inherited one: then the
  conversion is a TypeError.
\<close>

fun to_number :: "plain \<Rightarrow> error + int option" where
  "to_number PUndefined = Inr None"
| "to_number PNull = Inr (Some 0)"
| "to_number (PBoolean b) = Inr (Some (if b then 1 else 0))"
| "to_number (PNumber k) = Inr (Some k)"
| "to_number PEmptyString = Inr (Some 0)"
| "to_number (PObject ms) =
     (if has_key (Name ''toString'') ms
      then Inl (TypeError ''Cannot convert object to primitive value'')
      else Inr None)"

text \<open>
  \<^verbatim>\<open>isElement(obj)\<close> on such a value: it is no instance of \<^verbatim>\<open>Element\<close>, and with a falsy
  \<^verbatim>\<open>Element\<close> the test is \<^verbatim>\<open>!!(obj && obj.nodeType === 9)\<close>.
\<close>

definition isElement_plain :: "host \<Rightarrow> plain \<Rightarrow> bool" where
  "isElement_plain h obj =
     (if hasElement h then False
      else truthy_plain obj \<and>
        (case obj of PObject ms \<Rightarrow> read ms (Name ''nodeType'') = PNumber 9 | _ \<Rightarrow> False))"

text \<open>A call of a property that holds data, and an assignment to an existing property.\<close>

definition not_a_function :: "string \<Rightarrow> error" where
  "not_a_function name = TypeError (name @ '' is not a function'')"

definition assign :: "(key \<times> plain) list \<Rightarrow> key \<Rightarrow> plain \<Rightarrow> (key \<times> plain) list" where
  "assign ms k v = map (\<lambda>(k', v'). if k' = k then (k', v) else (k', v')) ms"

text \<open>
  \<^verbatim>\<open>while (node.firstChild) { node.removeChild(node.lastChild); }\<close> and its mirror image:
  when the tested property is truthy the argument is read and the call throws.
\<close>

definition while_property_removeChild :: "(key \<times> plain) list \<Rightarrow> key \<Rightarrow> error + bool" where
  "while_property_removeChild ms tested =
     (if truthy_plain (read ms tested) then Inl (not_a_function ''node.removeChild'')
      else Inr True)"

text \<open>
  \<^verbatim>\<open>var childNodes = node.childNodes; while (childNodes.length) { node.removeChild(...); }\<close>.
  The argument is \<^verbatim>\<open>childNodes[childNodes.length - 1]\<close> (\<open>from_end\<close>), whose subtraction
  converts the length to a number, or \<^verbatim>\<open>childNodes[0]\<close>; it is evaluated before the call
  throws.
\<close>

definition while_length_removeChild :: "(key \<times> plain) list \<Rightarrow> bool \<Rightarrow> error + bool" where
  "while_length_removeChild ms from_end =
     (case get_property (read ms (Name ''childNodes'')) (Name ''length'') of
        Inl e \<Rightarrow> Inl e
      | Inr len \<Rightarrow>
          (if truthy_plain len then
             (if from_end then
                (case to_number len of
                   Inl e \<Rightarrow> Inl e
                 | Inr number \<Rightarrow> Inl (not_a_function ''node.removeChild''))
              else Inl (not_a_function ''node.removeChild''))
           else Inr True))"

definition removeAll_plain :: "(key \<times> plain) list \<Rightarrow> (error + bool) \<times> (key \<times> plain) list" where
  "removeAll_plain ms =
     (if has_key (Name ''replaceChildren'') ms
        then (Inl (not_a_function ''node.replaceChildren''), ms)
      else if has_key (Name ''textContent'') ms
        then (Inr True, assign ms (Name ''textContent'') PEmptyString)
      else if has_key (Name ''innerHTML'') ms
        then (Inr True, assign ms (Name ''innerHTML'') PEmptyString)
      else if has_key (Name ''firstChild'') ms \<and> has_key (Name ''lastChild'') ms
        then (while_property_removeChild ms (Name ''firstChild''), ms)
      else if has_key (Name ''childNodes'') ms then (while_length_removeChild ms True, ms)
      else (Inr False, ms))"

definition removeAllForwards_plain :: "(key \<times> plain) list \<Rightarrow> error + bool" where
  "removeAllForwards_plain ms =
     (if has_key (Name ''firstChild'') ms \<and> has_key (Name ''lastChild'') ms
        then while_property_removeChild ms (Name ''lastChild'')
      else if has_key (Name ''childNodes'') ms then while_length_removeChild ms False
      else Inr False)"

definition removeAllBackwards_plain :: "(key \<times> plain) list \<Rightarrow> error + bool" where
  "removeAllBackwards_plain ms =
     (if has_key (Name ''firstChild'') ms \<and> has_key (Name ''lastChild'') ms
        then while_property_removeChild ms (Name ''firstChild'')
      else if has_key (Name ''childNodes'') ms then while_length_removeChild ms True
      else Inr False)"

definition hasChildElements_plain :: "(key \<times> plain) list \<Rightarrow> error + bool" where
  "hasChildElements_plain ms =
     (if has_key (Name ''childElementCount'') ms
        then Inr (truthy_plain (read ms (Name ''childElementCount'')))
      else if has_key (Name ''children'') ms then
        (case get_property (read ms (Name ''children'')) (Name ''length'') of
           Inl e \<Rightarrow> Inl e
         | Inr len \<Rightarrow> Inr (truthy_plain len))
      else Inr True)"

text \<open>
  The walks of \<^verbatim>\<open>elForBySibl\<close> and \<^verbatim>\<open>elBackBySibl\<close> along \<^verbatim>\<open>nextSibling\<close> or
  \<^verbatim>\<open>previousSibling\<close> (\<open>step\<close>): a value that \<^verbatim>\<open>isElement\<close> accepts is passed to
  \<^verbatim>\<open>node.removeChild\<close>, which throws; the walk ends at a falsy value.  The data are finite,
  so the walk ends.
\<close>

lemma size_read: "size (read ms k) < size (PObject ms)"
proof (induction ms)
  case Nil
  then show ?case by (simp add: read_def)
next
  case (Cons m ms)
  then show ?case by (cases m) (auto simp: read_def split: option.splits)
qed

function sibling_walk_plain :: "host \<Rightarrow> key \<Rightarrow> plain \<Rightarrow> error + bool" where
  "sibling_walk_plain h step current =
     (if truthy_plain current then
        (if isElement_plain h current then Inl (not_a_function ''node.removeChild'')
         else
           (case get_property current step of
              Inl e \<Rightarrow> Inl e
            | Inr sibling \<Rightarrow> sibling_walk_plain h step sibling))
      else Inr True)"
  by pat_completeness auto
termination
proof (relation
    "measure (\<lambda>(h, step, current). size current + (if truthy_plain current then 1 else 0))")
  show "wf (measure
      (\<lambda>(h, step, current). size current + (if truthy_plain current then 1 else 0)))"
    by simp
next
  fix h :: host and step current sibling
  assume t: "truthy_plain current" and g: "get_property current step = Inr sibling"
  show "((h, step, sibling), (h, step, current))
      \<in> measure (\<lambda>(h, step, current). size current + (if truthy_plain current then 1 else 0))"
  proof (cases current)
    case (PObject ms)
    with g have "sibling = read ms step" by simp
    with size_read [of ms step] PObject show ?thesis by simp
  qed (use t g in auto)
qed

definition elForBySibl_plain :: "host \<Rightarrow> (key \<times> plain) list \<Rightarrow> error + bool" where
  "elForBySibl_plain h ms =
     (case hasChildElements_plain ms of
        Inl e \<Rightarrow> Inl e
      | Inr has \<Rightarrow>
          (if \<not> has then Inr True
           else if has_key (Name ''firstChild'') ms \<and> has_key (Name ''nextSibling'') ms
             then sibling_walk_plain h (Name ''nextSibling'') (read ms (Name ''firstChild''))
           else Inr False))"

definition elBackBySibl_plain :: "host \<Rightarrow> (key \<times> plain) list \<Rightarrow> error + bool" where
  "elBackBySibl_plain h ms =
     (case hasChildElements_plain ms of
        Inl e \<Rightarrow> Inl e
      | Inr has \<Rightarrow>
          (if \<not> has then Inr True
           else if has_key (Name ''lastChild'') ms \<and> has_key (Name ''previousSibling'') ms
             then sibling_walk_plain h (Name ''previousSibling'') (read ms (Name ''lastChild''))
           else Inr False))"

text \<open>
  The index loops of \<^verbatim>\<open>elForByChildNodes\<close> and \<^verbatim>\<open>elBackByChildNodes\<close> over the value \<open>list\<close>
  of \<^verbatim>\<open>node.childNodes\<close>.  The forward loop tests \<^verbatim>\<open>index < childNodes.length\<close> at every
  round; the backward loop starts at \<^verbatim>\<open>childNodes.length - 1\<close>, and its argument \<open>k\<close> is one
  more than \<^verbatim>\<open>index\<close>.
\<close>

function elForByChildNodes_plain_loop :: "host \<Rightarrow> plain \<Rightarrow> nat \<Rightarrow> error + bool" where
  "elForByChildNodes_plain_loop h list index =
     (case get_property list (Name ''length'') of
        Inl e \<Rightarrow> Inl e
      | Inr len \<Rightarrow>
          (case to_number len of
             Inl e \<Rightarrow> Inl e
           | Inr None \<Rightarrow> Inr True
           | Inr (Some l) \<Rightarrow>
               (if int index < l then
                  (case get_property list (Index index) of
                     Inl e \<Rightarrow> Inl e
                   | Inr child \<Rightarrow>
                       (if isElement_plain h child then Inl (not_a_function ''node.removeChild'')
                        else elForByChildNodes_plain_loop h list (index + 1)))
                else Inr True)))"
  by pat_completeness auto
termination
  by (relation "measure (\<lambda>(h, list, index).
        (case get_property list (Name ''length'') of
           Inl e \<Rightarrow> 0
         | Inr len \<Rightarrow>
             (case to_number len of Inr (Some l) \<Rightarrow> nat l - index | _ \<Rightarrow> 0)))")
    auto

fun elBackByChildNodes_plain_loop :: "host \<Rightarrow> plain \<Rightarrow> nat \<Rightarrow> error + bool" where
  "elBackByChildNodes_plain_loop h list 0 = Inr True"
| "elBackByChildNodes_plain_loop h list (Suc index) =
     (case get_property list (Index index) of
        Inl e \<Rightarrow> Inl e
      | Inr child \<Rightarrow>
          (if isElement_plain h child then Inl (not_a_function ''node.removeChild'')
           else elBackByChildNodes_plain_loop h list index))"

definition elForByChildNodes_plain :: "host \<Rightarrow> (key \<times> plain) list \<Rightarrow> error + bool" where
  "elForByChildNodes_plain h ms =
     (if has_key (Name ''childNodes'') ms
        then elForByChildNodes_plain_loop h (read ms (Name ''childNodes'')) 0
      else Inr False)"

definition elBackByChildNodes_plain :: "host \<Rightarrow> (key \<times> plain) list \<Rightarrow> error + bool" where
  "elBackByChildNodes_plain h ms =
     (if has_key (Name ''childNodes'') ms then
        (case get_property (read ms (Name ''childNodes'')) (Name ''length'') of
           Inl e \<Rightarrow> Inl e
         | Inr len \<Rightarrow>
             (case to_number len of
                Inl e \<Rightarrow> Inl e
              | Inr None \<Rightarrow> Inr True
              | Inr (Some l) \<Rightarrow>
                  elBackByChildNodes_plain_loop h (read ms (Name ''childNodes'')) (nat l)))
      else Inr False)"

text \<open>\<^verbatim>\<open>a() || b()\<close> where either call can throw.\<close>

definition orElse_plain :: "error + bool \<Rightarrow> error + bool \<Rightarrow> error + bool" where
  "orElse_plain r next_method =
     (case r of Inl e \<Rightarrow> Inl e | Inr b \<Rightarrow> if b then Inr True else next_method)"

definition removeElements_plain :: "host \<Rightarrow> (key \<times> plain) list \<Rightarrow> error + bool" where
  "removeElements_plain h ms =
     orElse_plain (orElse_plain (elBackBySibl_plain h ms) (elForBySibl_plain h ms))
       (elBackByChildNodes_plain h ms)"

definition removeElForwards_plain :: "host \<Rightarrow> (key \<times> plain) list \<Rightarrow> error + bool" where
  "removeElForwards_plain h ms =
     orElse_plain (elForBySibl_plain h ms) (elForByChildNodes_plain h ms)"

definition removeElBackwards_plain :: "host \<Rightarrow> (key \<times> plain) list \<Rightarrow> error + bool" where
  "removeElBackwards_plain h ms =
     orElse_plain (elBackBySibl_plain h ms) (elBackByChildNodes_plain h ms)"

text \<open>
  \<^verbatim>\<open>tryMethods()\<close> on such an object.  Only \<^verbatim>\<open>removeAll\<close> changes it (by an assignment);
  every other method returns or throws before any change.
\<close>

definition tryMethods_plain ::
    "host \<Rightarrow> (key \<times> plain) list \<Rightarrow> jsval \<Rightarrow> jsval \<Rightarrow> (error + bool) \<times> (key \<times> plain) list" where
  "tryMethods_plain h ms removeEls forwards =
     (if forwards = JUndefined then
        (if truthy removeEls then (removeElements_plain h ms, ms) else removeAll_plain ms)
      else if truthy forwards then
        (if truthy removeEls then (removeElForwards_plain h ms, ms)
         else (removeAllForwards_plain ms, ms))
      else
        (if truthy removeEls then (removeElBackwards_plain h ms, ms)
         else (removeAllBackwards_plain ms, ms)))"


section \<open>removeChildren: the function\<close>

text \<open>
  \<^verbatim>\<open>removeChildren(node, removeElements, forwards)\<close>: \<^verbatim>\<open>checkParameter()\<close>, then
  \<^verbatim>\<open>tryMethods()\<close>.  The second component of the result is the value passed as \<^verbatim>\<open>node\<close>
  as the call leaves it.  \<^verbatim>\<open>isNode\<close> accepts nodes and other objects only, so the last
  case of the definition is never reached.
\<close>

definition removeChildren :: "host \<Rightarrow> jsval \<Rightarrow> jsval \<Rightarrow> jsval \<Rightarrow> (error + bool) \<times> jsval" where
  "removeChildren h node removeEls forwards =
     (if \<not> isNode h node
      then (Inl (TypeError ''The value passed to the \"node\" parameter is not a Node object.''), node)
      else
        (case node of
           JObject inst n \<Rightarrow>
             (case tryMethods h n removeEls forwards of (r, n') \<Rightarrow> (Inr r, JObject inst n'))
         | JPlain ms \<Rightarrow>
             (case tryMethods_plain h ms removeEls forwards of (r, ms') \<Rightarrow> (r, JPlain ms'))
         | _ \<Rightarrow> (Inl (TypeError ''The value passed to the \"node\" parameter is not a Node object.''), node)))"



section \<open>removeChildren: what the loops leave\<close>

declare while_firstChild_remove_lastChild.simps [simp del]
  while_lastChild_remove_firstChild.simps [simp del]
  while_childNodes_remove_last.simps [simp del]
  while_childNodes_remove_first.simps [simp del]
  elForBySibl_loop.simps [simp del]
  elForByChildNodes_loop.simps [simp del]

lemma replaceChildren_removeChild: "replaceChildren (removeChild n i) = replaceChildren n"
  by (simp add: replaceChildren_def removeChild_def)

lemma replaceChildren_no_children: "childNodes n = [] \<Longrightarrow> replaceChildren n = n"
  by (cases n) (simp add: replaceChildren_def)

lemma lastChild_iff: "lastChild n \<noteq> None \<longleftrightarrow> childNodes n \<noteq> []"
  by (simp add: lastChild_def split: list.splits)

lemma while_firstChild_remove_lastChild_eq:
  "while_firstChild_remove_lastChild n = replaceChildren n"
proof (induction n rule: while_firstChild_remove_lastChild.induct)
  case (1 n)
  show ?case
  proof (cases "firstChild n \<noteq> None")
    case True
    with 1 show ?thesis
      by (subst while_firstChild_remove_lastChild.simps)
        (simp add: replaceChildren_removeChild)
  next
    case False
    then have "childNodes n = []" using firstChild_iff [of n] by simp
    with False show ?thesis
      by (subst while_firstChild_remove_lastChild.simps)
        (simp add: replaceChildren_no_children)
  qed
qed

lemma while_lastChild_remove_firstChild_eq:
  "while_lastChild_remove_firstChild n = replaceChildren n"
proof (induction n rule: while_lastChild_remove_firstChild.induct)
  case (1 n)
  show ?case
  proof (cases "lastChild n \<noteq> None")
    case True
    with 1 show ?thesis
      by (subst while_lastChild_remove_firstChild.simps)
        (simp add: replaceChildren_removeChild)
  next
    case False
    then have "childNodes n = []" using lastChild_iff [of n] by simp
    with False show ?thesis
      by (subst while_lastChild_remove_firstChild.simps)
        (simp add: replaceChildren_no_children)
  qed
qed

lemma while_childNodes_remove_last_eq:
  "while_childNodes_remove_last n = replaceChildren n"
proof (induction n rule: while_childNodes_remove_last.induct)
  case (1 n)
  show ?case
  proof (cases "length (childNodes n) \<noteq> 0")
    case True
    with 1 show ?thesis
      by (subst while_childNodes_remove_last.simps)
        (simp add: replaceChildren_removeChild)
  next
    case False
    then show ?thesis
      by (subst while_childNodes_remove_last.simps)
        (simp add: replaceChildren_no_children)
  qed
qed

lemma while_childNodes_remove_first_eq:
  "while_childNodes_remove_first n = replaceChildren n"
proof (induction n rule: while_childNodes_remove_first.induct)
  case (1 n)
  show ?case
  proof (cases "length (childNodes n) \<noteq> 0")
    case True
    with 1 show ?thesis
      by (subst while_childNodes_remove_first.simps)
        (simp add: replaceChildren_removeChild)
  next
    case False
    then show ?thesis
      by (subst while_childNodes_remove_first.simps)
        (simp add: replaceChildren_no_children)
  qed
qed

text \<open>
  Claim C2.  On a parent node that has the legacy mechanisms, each fallback branch of
  \<^verbatim>\<open>removeAll\<close>, \<^verbatim>\<open>removeAllForwards\<close> and \<^verbatim>\<open>removeAllBackwards\<close> (the loop driven by
  \<^verbatim>\<open>firstChild\<close>/\<^verbatim>\<open>lastChild\<close> and the loop driven by \<^verbatim>\<open>childNodes\<close>, removing the first or
  the last child) returns true and leaves the node exactly as one call of
  \<^verbatim>\<open>replaceChildren()\<close> leaves it: no child, and the node type, the properties and the node
  value as before.
\<close>

theorem C2_fallback_loops_equal_replaceChildren:
  "while_firstChild_remove_lastChild n = replaceChildren n \<and>
   while_lastChild_remove_firstChild n = replaceChildren n \<and>
   while_childNodes_remove_last n = replaceChildren n \<and>
   while_childNodes_remove_first n = replaceChildren n \<and>
   removeAllForwards n =
     (if has_prop ''firstChild'' n \<and> has_prop ''lastChild'' n \<or> has_prop ''childNodes'' n
      then (True, replaceChildren n) else (False, n)) \<and>
   removeAllBackwards n =
     (if has_prop ''firstChild'' n \<and> has_prop ''lastChild'' n \<or> has_prop ''childNodes'' n
      then (True, replaceChildren n) else (False, n)) \<and>
   (if has_prop ''replaceChildren'' n \<or> has_prop ''textContent'' n \<or> has_prop ''innerHTML'' n
    then True
    else removeAll n =
      (if has_prop ''firstChild'' n \<and> has_prop ''lastChild'' n \<or> has_prop ''childNodes'' n
       then (True, replaceChildren n) else (False, n))) \<and>
   childNodes (replaceChildren n) = [] \<and>
   nodeType (replaceChildren n) = nodeType n \<and>
   props (replaceChildren n) = props n \<and>
   nodeValue (replaceChildren n) = nodeValue n"
  by (simp add: while_firstChild_remove_lastChild_eq while_lastChild_remove_firstChild_eq
      while_childNodes_remove_last_eq while_childNodes_remove_first_eq
      removeAllForwards_def removeAllBackwards_def removeAll_def replaceChildren_def)

theorem C2_fallback_loops_witness:
  "removeAllForwards (Node 1 [''firstChild'', ''lastChild'', ''childNodes''] []
      [Node 3 [] ''a'' [], Node 1 [] [] [Node 3 [] ''b'' []], Node 8 [] ''c'' []]) =
     (True, Node 1 [''firstChild'', ''lastChild'', ''childNodes''] [] []) \<and>
   removeAllBackwards (Node 1 [''childNodes''] []
      [Node 3 [] ''a'' [], Node 1 [] [] [Node 3 [] ''b'' []], Node 8 [] ''c'' []]) =
     (True, Node 1 [''childNodes''] [] [])"
  using C2_fallback_loops_equal_replaceChildren
    [of "Node 1 [''firstChild'', ''lastChild'', ''childNodes''] []
      [Node 3 [] ''a'' [], Node 1 [] [] [Node 3 [] ''b'' []], Node 8 [] ''c'' []]"]
    C2_fallback_loops_equal_replaceChildren
    [of "Node 1 [''childNodes''] []
      [Node 3 [] ''a'' [], Node 1 [] [] [Node 3 [] ''b'' []], Node 8 [] ''c'' []]"]
  by (simp add: has_prop_def replaceChildren_def)

text \<open>
  What \<^verbatim>\<open>removeAll\<close> does, mechanism by mechanism: it returns false exactly when none of
  the five mechanisms exists, and it empties the child list unless the first mechanism
  that exists is \<^verbatim>\<open>textContent\<close> on a node whose \<^verbatim>\<open>textContent\<close> setter does not remove
  children.
\<close>

lemma removeAll_result:
  "removeAll n =
     (if has_prop ''replaceChildren'' n then (True, replaceChildren n)
      else if has_prop ''textContent'' n then (True, set_textContent_empty n)
      else if has_prop ''innerHTML'' n \<or>
          (has_prop ''firstChild'' n \<and> has_prop ''lastChild'' n) \<or> has_prop ''childNodes'' n
        then (True, replaceChildren n)
      else (False, n))"
  by (simp add: removeAll_def while_firstChild_remove_lastChild_eq
      while_childNodes_remove_last_eq set_innerHTML_empty_def replaceChildren_def)

lemma removeAll_false_iff:
  "fst (removeAll n) = False \<longleftrightarrow>
     \<not> has_prop ''replaceChildren'' n \<and> \<not> has_prop ''textContent'' n \<and>
     \<not> has_prop ''innerHTML'' n \<and>
     \<not> (has_prop ''firstChild'' n \<and> has_prop ''lastChild'' n) \<and> \<not> has_prop ''childNodes'' n"
  by (simp add: removeAll_result)

lemma removeAll_empties_element:
  "fst (removeAll n) \<Longrightarrow> nodeType n \<in> {1, 11} \<Longrightarrow> snd (removeAll n) = replaceChildren n"
  by (auto simp: removeAll_result set_textContent_empty_def replaceChildren_def
      split: if_splits)

text \<open>
  Claim C1 (the code departs from it).  A Document node of a host in which documents have
  no \<^verbatim>\<open>replaceChildren\<close> method but have \<^verbatim>\<open>textContent\<close>: the first mechanism that exists is
  \<^verbatim>\<open>textContent\<close>, whose setter does nothing on a Document, and \<^verbatim>\<open>removeChildren\<close> returns
  true with both children still attached.
\<close>

theorem C1_document_children_not_removed:
  "removeChildren \<lparr>hasNode = True, hasElement = True\<rparr>
     (JObject True
        (Node 9 [''textContent'', ''firstChild'', ''lastChild'', ''childNodes''] []
           [Node 10 [] [] [], Node 1 [''textContent'', ''innerHTML''] [] []]))
     JUndefined JUndefined =
   (Inr True,
    JObject True
      (Node 9 [''textContent'', ''firstChild'', ''lastChild'', ''childNodes''] []
         [Node 10 [] [] [], Node 1 [''textContent'', ''innerHTML''] [] []]))"
  by (simp add: removeChildren_def isNode_def instanceofNode_def tryMethods_def
      removeAll_def has_prop_def set_textContent_empty_def)



section \<open>removeChildren: parameter validation\<close>


text \<open>
  With a falsy \<^verbatim>\<open>Node\<close>, an object that is not a node but has truthy properties
  \<^verbatim>\<open>removeChild\<close> and \<^verbatim>\<open>replaceChildren\<close> passes \<^verbatim>\<open>checkParameter\<close>; the call
  \<^verbatim>\<open>node.replaceChildren()\<close> then throws a TypeError of the engine.  With a property
  \<^verbatim>\<open>textContent\<close> instead, the object is changed and the call returns true.
\<close>

lemma removeChildren_on_object_with_data:
  "removeChildren \<lparr>hasNode = False, hasElement = False\<rparr>
     (JPlain [(Name ''removeChild'', PNumber 1), (Name ''replaceChildren'', PNumber 1)])
     JUndefined JUndefined =
   (Inl (TypeError ''node.replaceChildren is not a function''),
    JPlain [(Name ''removeChild'', PNumber 1), (Name ''replaceChildren'', PNumber 1)])"
  "removeChildren \<lparr>hasNode = False, hasElement = False\<rparr>
     (JPlain [(Name ''removeChild'', PNumber 1), (Name ''textContent'', PNumber 5)])
     JUndefined JUndefined =
   (Inr True, JPlain [(Name ''removeChild'', PNumber 1), (Name ''textContent'', PEmptyString)])"
  by (simp_all add: removeChildren_def isNode_def removeChild_truthy_def read_def
      tryMethods_plain_def removeAll_plain_def has_key_def not_a_function_def assign_def)




section \<open>removeChildren: removing only the Element children\<close>

lemma removeChild_fields [simp]:
  "nodeType (removeChild n i) = nodeType n"
  "props (removeChild n i) = props n"
  "nodeValue (removeChild n i) = nodeValue n"
  "childNodes (removeChild n i) = take i (childNodes n) @ drop (Suc i) (childNodes n)"
  by (simp_all add: removeChild_def)

lemma elBackBySibl_loop_result:
  "k \<le> length (childNodes n) \<Longrightarrow>
   elBackBySibl_loop h n k =
     Node (nodeType n) (props n) (nodeValue n)
       (filter (\<lambda>c. \<not> isElement h c) (take k (childNodes n)) @ drop k (childNodes n))"
proof (induction k arbitrary: n)
  case 0
  then show ?case by (cases n) simp
next
  case (Suc i)
  then have i: "i < length (childNodes n)" by simp
  then have t: "take (Suc i) (childNodes n) = take i (childNodes n) @ [childNodes n ! i]"
    by (simp add: take_Suc_conv_app_nth)
  show ?case
  proof (cases "isElement h (childNodes n ! i)")
    case True
    have "i \<le> length (childNodes (removeChild n i))" using i by simp
    from Suc.IH [OF this] True t i show ?thesis by simp
  next
    case False
    have "i \<le> length (childNodes n)" using i by simp
    from Suc.IH [OF this] False t i show ?thesis
      by (simp add: Cons_nth_drop_Suc)
  qed
qed

lemma elBackByChildNodes_loop_eq:
  "elBackByChildNodes_loop h n k = elBackBySibl_loop h n k"
  by (induction k arbitrary: n) simp_all

lemma elForBySibl_loop_result:
  "i \<le> length (childNodes n) \<Longrightarrow>
   elForBySibl_loop h n i =
     Node (nodeType n) (props n) (nodeValue n)
       (take i (childNodes n) @ filter (\<lambda>c. \<not> isElement h c) (drop i (childNodes n)))"
proof (induction h n i rule: elForBySibl_loop.induct)
  case (1 h n i)
  show ?case
  proof (cases "i < length (childNodes n)")
    case False
    with "1.prems" show ?thesis
      by (subst elForBySibl_loop.simps) (cases n, simp)
  next
    case True
    then have d: "drop i (childNodes n) = childNodes n ! i # drop (Suc i) (childNodes n)"
      by (simp add: Cons_nth_drop_Suc)
    show ?thesis
    proof (cases "isElement h (childNodes n ! i)")
      case el: True
      have "i \<le> length (childNodes (removeChild n i))" using True by simp
      from "1.IH"(1) [OF True el this] True el d show ?thesis
        by (subst elForBySibl_loop.simps) simp
    next
      case nel: False
      have "i + 1 \<le> length (childNodes n)" using True by simp
      from "1.IH"(2) [OF True nel this] True nel d show ?thesis
        by (subst elForBySibl_loop.simps) (simp add: take_Suc_conv_app_nth)
    qed
  qed
qed

lemma elForByChildNodes_loop_eq:
  "elForByChildNodes_loop h n i = elForBySibl_loop h n i"
proof (induction h n i rule: elForBySibl_loop.induct)
  case (1 h n i)
  then show ?case
    by (subst elForByChildNodes_loop.simps, subst elForBySibl_loop.simps) simp
qed

definition without_elements :: "node \<Rightarrow> node" where
  "without_elements n =
     Node (nodeType n) (props n) (nodeValue n) (filter (\<lambda>c. nodeType c \<noteq> 1) (childNodes n))"

lemma no_child_elements:
  "\<not> hasChildElements n \<Longrightarrow> without_elements n = n"
proof -
  assume "\<not> hasChildElements n"
  then have "childElementCount n = 0"
    by (simp add: hasChildElements_def split: if_splits)
  then have "filter (\<lambda>c. nodeType c = 1) (childNodes n) = []"
    by (simp add: childElementCount_def)
  then have "filter (\<lambda>c. nodeType c \<noteq> 1) (childNodes n) = childNodes n"
    by (simp add: filter_empty_conv)
  then show ?thesis by (cases n) (simp add: without_elements_def)
qed

text \<open>
  In a host whose global \<^verbatim>\<open>Element\<close> is truthy, every method that removes Element
  children and returns true leaves exactly the children that are not Elements, in their
  order, and changes nothing else.
\<close>

lemma loops_with_Element:
  assumes "hasElement h"
  shows "elForBySibl_loop h n 0 = without_elements n"
    and "elBackBySibl_loop h n (length (childNodes n)) = without_elements n"
    and "elForByChildNodes_loop h n 0 = without_elements n"
    and "elBackByChildNodes_loop h n (length (childNodes n)) = without_elements n"
  using assms
  by (simp_all add: elForBySibl_loop_result elBackBySibl_loop_result
      elForByChildNodes_loop_eq elBackByChildNodes_loop_eq without_elements_def isElement_def)

lemma element_methods_with_Element:
  assumes "hasElement h"
  shows "fst (elForBySibl h n) \<Longrightarrow> snd (elForBySibl h n) = without_elements n"
    and "fst (elBackBySibl h n) \<Longrightarrow> snd (elBackBySibl h n) = without_elements n"
    and "fst (elForByChildNodes h n) \<Longrightarrow> snd (elForByChildNodes h n) = without_elements n"
    and "fst (elBackByChildNodes h n) \<Longrightarrow> snd (elBackByChildNodes h n) = without_elements n"
  by (simp_all add: elForBySibl_def elBackBySibl_def elForByChildNodes_def
      elBackByChildNodes_def loops_with_Element [OF assms] no_child_elements
      split: if_splits)

lemma element_methods_false_unchanged:
  "\<not> fst (elForBySibl h n) \<Longrightarrow> snd (elForBySibl h n) = n"
  "\<not> fst (elBackBySibl h n) \<Longrightarrow> snd (elBackBySibl h n) = n"
  "\<not> fst (elForByChildNodes h n) \<Longrightarrow> snd (elForByChildNodes h n) = n"
  "\<not> fst (elBackByChildNodes h n) \<Longrightarrow> snd (elBackByChildNodes h n) = n"
  by (auto simp: elForBySibl_def elBackBySibl_def elForByChildNodes_def elBackByChildNodes_def
      split: if_splits)

lemma removeElements_with_Element:
  assumes "hasElement h" and "truthy removeEls"
    and "fst (tryMethods h n removeEls forwards)"
  shows "snd (tryMethods h n removeEls forwards) = without_elements n"
proof -
  note m = element_methods_with_Element [OF assms(1)] element_methods_false_unchanged
  have "fst (removeElements h n) \<Longrightarrow> snd (removeElements h n) = without_elements n"
    by (simp add: removeElements_def orElse_def m split: if_splits)
  moreover have "fst (removeElForwards h n) \<Longrightarrow> snd (removeElForwards h n) = without_elements n"
    by (simp add: removeElForwards_def orElse_def m split: if_splits)
  moreover have "fst (removeElBackwards h n) \<Longrightarrow> snd (removeElBackwards h n) = without_elements n"
    by (simp add: removeElBackwards_def orElse_def m split: if_splits)
  ultimately show ?thesis
    using assms(2,3) by (auto simp: tryMethods_def split: if_splits)
qed

text \<open>
  Claim C10 (the code departs from it).  In a host whose global \<^verbatim>\<open>Element\<close> is falsy,
  \<^verbatim>\<open>isElement\<close> tests \<^verbatim>\<open>nodeType === 9\<close> (a Document) where its documentation says 1, so no
  Element child is ever recognised: each branch returns true and the Element child stays.
\<close>

theorem C10_element_child_not_removed:
  "removeChildren \<lparr>hasNode = True, hasElement = False\<rparr>
     (JObject True
        (Node 1 [''lastChild'', ''previousSibling'', ''firstChild'', ''nextSibling'', ''childNodes'']
           [] [Node 3 [] ''text'' [], Node 1 [] [] []]))
     (JBoolean True) JUndefined =
   (Inr True,
    JObject True
      (Node 1 [''lastChild'', ''previousSibling'', ''firstChild'', ''nextSibling'', ''childNodes'']
         [] [Node 3 [] ''text'' [], Node 1 [] [] []])) \<and>
   elForBySibl \<lparr>hasNode = True, hasElement = False\<rparr>
     (Node 1 [''firstChild'', ''nextSibling''] [] [Node 3 [] ''text'' [], Node 1 [] [] []]) =
   (True, Node 1 [''firstChild'', ''nextSibling''] [] [Node 3 [] ''text'' [], Node 1 [] [] []]) \<and>
   elBackByChildNodes \<lparr>hasNode = True, hasElement = False\<rparr>
     (Node 1 [''childNodes''] [] [Node 3 [] ''text'' [], Node 1 [] [] []]) =
   (True, Node 1 [''childNodes''] [] [Node 3 [] ''text'' [], Node 1 [] [] []])"
  by code_simp


section \<open>At.js: the polyfill of Array.prototype.at\<close>

text \<open>
  A JavaScript number as the polyfill sees it.  The polyfill only compares the index with
  zero and with the length, rounds it to an integer and adds the length to it; on finite
  numbers these operations are those of the rationals, so a finite number is a rational.
\<close>

datatype jsnum = NaN | PosInf | NegInf | Fin rat

text \<open>
  The object \<^verbatim>\<open>at\<close> is called on: \<^verbatim>\<open>undefined\<close>, \<^verbatim>\<open>null\<close>, an object with no numeric
  \<^verbatim>\<open>length\<close>, or an array with its elements (an array-like object with a non-negative
  integer \<^verbatim>\<open>length\<close> and its indexed entries is the same data).  \<open>None\<close> is
  \<^verbatim>\<open>undefined\<close>.
\<close>

datatype 'a target = TUndefined | TNull | TNoLength | TArray "'a list"

text \<open>\<^verbatim>\<open>targetObj[index]\<close> for a number: an array has entries at \<open>0, \<dots>, length - 1\<close> only.\<close>

fun get_entry :: "'a list \<Rightarrow> jsnum \<Rightarrow> 'a option" where
  "get_entry xs (Fin q) =
     (if q = of_int \<lfloor>q\<rfloor> \<and> 0 \<le> q \<and> q < of_nat (length xs) then Some (xs ! nat \<lfloor>q\<rfloor>)
      else None)"
| "get_entry xs _ = None"

fun isNaN :: "jsnum \<Rightarrow> bool" where
  "isNaN NaN = True"
| "isNaN _ = False"

text \<open>\<^verbatim>\<open>index >= 0\<close>, \<^verbatim>\<open>index < targetObj.length\<close>, \<^verbatim>\<open>Math.floor\<close>, \<^verbatim>\<open>Math.ceil\<close> and
  \<^verbatim>\<open>targetObj.length + x\<close>.\<close>

fun ge_zero :: "jsnum \<Rightarrow> bool" where
  "ge_zero (Fin q) = (0 \<le> q)"
| "ge_zero PosInf = True"
| "ge_zero _ = False"

fun less_length :: "jsnum \<Rightarrow> nat \<Rightarrow> bool" where
  "less_length (Fin q) len = (q < of_nat len)"
| "less_length NegInf len = True"
| "less_length _ len = False"

fun Math_floor :: "jsnum \<Rightarrow> jsnum" where
  "Math_floor (Fin q) = Fin (of_int \<lfloor>q\<rfloor>)"
| "Math_floor x = x"

fun Math_ceil :: "jsnum \<Rightarrow> jsnum" where
  "Math_ceil (Fin q) = Fin (of_int \<lceil>q\<rceil>)"
| "Math_ceil x = x"

fun length_plus :: "nat \<Rightarrow> jsnum \<Rightarrow> jsnum" where
  "length_plus len (Fin q) = Fin (of_nat len + q)"
| "length_plus len x = x"

text \<open>
  \<^verbatim>\<open>checkTargetObj()\<close> throws for \<^verbatim>\<open>undefined\<close> and \<^verbatim>\<open>null\<close> and otherwise tells whether
  \<^verbatim>\<open>length\<close> is a number.  \<^verbatim>\<open>checkIndex()\<close> gets the index already converted by
  \<^verbatim>\<open>Number(index)\<close> and returns its Boolean together with the value it leaves in
  \<^verbatim>\<open>index\<close>.
\<close>

fun checkTargetObj :: "'a target \<Rightarrow> error + bool" where
  "checkTargetObj TUndefined =
     Inl (TypeError ''Parameter \"targetObj\" must not be null or undefined.'')"
| "checkTargetObj TNull =
     Inl (TypeError ''Parameter \"targetObj\" must not be null or undefined.'')"
| "checkTargetObj TNoLength = Inr False"
| "checkTargetObj (TArray xs) = Inr True"

definition checkIndex :: "nat \<Rightarrow> nat \<Rightarrow> jsnum \<Rightarrow> bool \<times> jsnum" where
  "checkIndex len parentArgLen index =
     (if parentArgLen = 0 \<or> isNaN index then
        (if len \<noteq> 0 then (True, Fin 0) else (False, index))
      else if ge_zero index then
        (if less_length index len then (True, Math_floor index) else (False, index))
      else (ge_zero (length_plus len (Math_ceil index)), length_plus len (Math_ceil index)))"

definition arrayAtPolyfill :: "'a target \<Rightarrow> nat \<Rightarrow> jsnum \<Rightarrow> error + 'a option" where
  "arrayAtPolyfill targetObj parentArgLen index =
     (case checkTargetObj targetObj of
        Inl e \<Rightarrow> Inl e
      | Inr False \<Rightarrow> Inr None
      | Inr True \<Rightarrow>
          (case targetObj of
             TArray xs \<Rightarrow>
               (case checkIndex (length xs) parentArgLen index of
                  (True, index') \<Rightarrow> Inr (get_entry xs index')
                | (False, index') \<Rightarrow> Inr None)
           | _ \<Rightarrow> Inr None))"

text \<open>
  The installed method \<^verbatim>\<open>function(index) { return arrayAtPolyfill(this, arguments.length, index); }\<close>.
  It is a function of sloppy mode: called with \<^verbatim>\<open>undefined\<close> or \<^verbatim>\<open>null\<close> as its \<^verbatim>\<open>this\<close>
  value (through \<^verbatim>\<open>call\<close> or \<^verbatim>\<open>apply\<close>) it receives the global object, here that of a window
  without frames, whose \<^verbatim>\<open>length\<close> is 0 and which has no indexed entry.  The arguments of
  the call are the list of their \<^verbatim>\<open>Number(...)\<close> values; \<^verbatim>\<open>Number(undefined)\<close> of a missing
  first argument is \<^verbatim>\<open>NaN\<close>.
\<close>

fun sloppy_this :: "'a target \<Rightarrow> 'a target" where
  "sloppy_this TUndefined = TArray []"
| "sloppy_this TNull = TArray []"
| "sloppy_this TNoLength = TNoLength"
| "sloppy_this (TArray xs) = TArray xs"

definition at_polyfill :: "'a target \<Rightarrow> jsnum list \<Rightarrow> error + 'a option" where
  "at_polyfill this args =
     arrayAtPolyfill (sloppy_this this) (length args)
       (case args of [] \<Rightarrow> NaN | index # _ \<Rightarrow> index)"

text \<open>
  The reference the claim compares with, in the claim's words and those of the standard
  definition of \<^verbatim>\<open>Array.prototype.at\<close>: the index is truncated to an integer (not a number and
  no argument count as 0); a negative truncated index counts back from the end; the
  result is the element there, or \<^verbatim>\<open>undefined\<close> when there is none.
\<close>

definition truncate_rat :: "rat \<Rightarrow> int" where
  "truncate_rat q = (if 0 \<le> q then \<lfloor>q\<rfloor> else \<lceil>q\<rceil>)"

fun at_reference_index :: "'a list \<Rightarrow> jsnum \<Rightarrow> 'a option" where
  "at_reference_index xs NaN = (if xs = [] then None else Some (xs ! 0))"
| "at_reference_index xs PosInf = None"
| "at_reference_index xs NegInf = None"
| "at_reference_index xs (Fin q) =
     (let relativeIndex = truncate_rat q;
          k = (if 0 \<le> relativeIndex then relativeIndex else int (length xs) + relativeIndex)
      in if k < 0 \<or> int (length xs) \<le> k then None else Some (xs ! nat k))"

definition at_reference :: "'a list \<Rightarrow> jsnum list \<Rightarrow> 'a option" where
  "at_reference xs args =
     at_reference_index xs (case args of [] \<Rightarrow> NaN | index # _ \<Rightarrow> index)"

text \<open>
  Where the polyfill and the reference agree: on every array, for every index argument
  that is not strictly between \<open>-1\<close> and \<open>0\<close>.
\<close>

lemma get_entry_of_int:
  "get_entry xs (Fin (of_int k)) = (if 0 \<le> k \<and> k < int (length xs) then Some (xs ! nat k) else None)"
proof -
  have "(of_int k :: rat) < of_nat (length xs) \<longleftrightarrow> k < int (length xs)"
    by (metis of_int_less_iff of_int_of_nat_eq)
  then show ?thesis by simp
qed

lemma at_polyfill_agrees_index:
  assumes "\<not> (\<exists>q. index = Fin q \<and> - 1 < q \<and> q < 0)" and "0 < parentArgLen"
  shows "arrayAtPolyfill (TArray xs) parentArgLen index = Inr (at_reference_index xs index)"
proof (cases index)
  case NaN
  then show ?thesis
    by (simp add: arrayAtPolyfill_def checkIndex_def)
next
  case PosInf
  with assms(2) show ?thesis
    by (simp add: arrayAtPolyfill_def checkIndex_def)
next
  case NegInf
  with assms(2) show ?thesis
    by (simp add: arrayAtPolyfill_def checkIndex_def)
next
  case (Fin q)
  show ?thesis
  proof (cases "0 \<le> q")
    case True
    have lt: "q < of_nat (length xs) \<longleftrightarrow> \<lfloor>q\<rfloor> < int (length xs)"
      by (metis floor_less_iff of_int_of_nat_eq)
    have ge: "0 \<le> \<lfloor>q\<rfloor>" using True by simp
    show ?thesis
    proof (cases "q < of_nat (length xs)")
      case inside: True
      with Fin True assms(2) lt ge show ?thesis
        by (simp add: arrayAtPolyfill_def checkIndex_def truncate_rat_def get_entry_of_int
            del: get_entry.simps)
    next
      case outside: False
      with Fin True assms(2) lt ge show ?thesis
        by (simp add: arrayAtPolyfill_def checkIndex_def truncate_rat_def)
    qed
  next
    case False
    with assms(1) Fin have qle: "q \<le> - 1" by auto
    then have c: "\<lceil>q\<rceil> \<le> - 1" by (simp add: ceiling_le_iff)
    have sum: "(of_nat (length xs) + of_int \<lceil>q\<rceil> :: rat) = of_int (int (length xs) + \<lceil>q\<rceil>)"
      by simp
    have ge: "(0 :: rat) \<le> of_nat (length xs) + of_int \<lceil>q\<rceil> \<longleftrightarrow> 0 \<le> int (length xs) + \<lceil>q\<rceil>"
      unfolding sum by (simp only: of_int_0_le_iff)
    show ?thesis
    proof (cases "0 \<le> int (length xs) + \<lceil>q\<rceil>")
      case True
      with Fin False assms(2) c ge qle show ?thesis
        unfolding arrayAtPolyfill_def checkIndex_def
        by (simp add: truncate_rat_def sum get_entry_of_int Let_def
            del: get_entry.simps of_int_add)
    next
      case neg: False
      with Fin False assms(2) c ge qle show ?thesis
        unfolding arrayAtPolyfill_def checkIndex_def
        by (simp add: truncate_rat_def Let_def)
    qed
  qed
qed

lemma at_polyfill_agrees_outside_gap:
  assumes "\<not> (\<exists>q rest. args = Fin q # rest \<and> - 1 < q \<and> q < 0)"
  shows "at_polyfill (TArray xs) args = Inr (at_reference xs args)"
proof (cases args)
  case Nil
  then show ?thesis
    by (simp add: at_polyfill_def at_reference_def arrayAtPolyfill_def checkIndex_def)
next
  case (Cons index rest)
  with assms have "\<not> (\<exists>q. index = Fin q \<and> - 1 < q \<and> q < 0)" by simp
  from at_polyfill_agrees_index [OF this, of "length args" xs] Cons show ?thesis
    by (simp add: at_polyfill_def at_reference_def)
qed

text \<open>
  Claim C3 (the code departs from it).  \<^verbatim>\<open>[10, 20, 30].at(-0.5)\<close>: the reference truncates
  \<open>-0.5\<close> to \<open>0\<close> and returns the first element.  The polyfill tests the sign before it
  rounds, takes the negative branch, reads \<^verbatim>\<open>targetObj[3 + Math.ceil(-0.5)]\<close>, that is
  \<^verbatim>\<open>targetObj[3]\<close>, and returns \<^verbatim>\<open>undefined\<close>.
\<close>

theorem C3_polyfill_differs_at_minus_half:
  "at_polyfill (TArray [10, 20, 30 :: int]) [Fin (- 1 / 2)] = Inr None \<and>
   at_reference [10, 20, 30 :: int] [Fin (- 1 / 2)] = Some 10"
  by (simp add: at_polyfill_def arrayAtPolyfill_def checkIndex_def at_reference_def
      truncate_rat_def)


section \<open>GetAllComments.js: the strategies and their cascade\<close>

text \<open>
  What \<^verbatim>\<open>tryMethods\<close> of \<^verbatim>\<open>getAllComments\<close> reads from the host: whether
  \<^verbatim>\<open>document.createTreeWalker\<close> is truthy, and whether the global \<^verbatim>\<open>Comment\<close> (set by
  \<^verbatim>\<open>setApiRef\<close> from \<^verbatim>\<open>window.Comment\<close>) is truthy.
\<close>

record comment_host =
  createTreeWalker :: bool
  hasComment :: bool

text \<open>
  \<^verbatim>\<open>isComment(obj)\<close> is \<^verbatim>\<open>Comment ? obj instanceof Comment : !!(obj && obj.nodeType === 8)\<close>;
  a node is an instance of \<^verbatim>\<open>Comment\<close> exactly when its node type is 8.
\<close>

definition isComment :: "comment_host \<Rightarrow> node \<Rightarrow> bool" where
  "isComment h obj = (if hasComment h then nodeType obj = 8 else nodeType obj = 8)"

text \<open>
  \<^verbatim>\<open>getCommentText(comment)\<close>: the first of \<^verbatim>\<open>nodeValue\<close>, \<^verbatim>\<open>textContent\<close>, \<^verbatim>\<open>innerHTML\<close>
  that the node has; each of them holds the comment's character data.
\<close>

definition getCommentText :: "node \<Rightarrow> error + string" where
  "getCommentText comment =
     (if has_prop ''nodeValue'' comment then Inr (nodeValue comment)
      else if has_prop ''textContent'' comment then Inr (nodeValue comment)
      else if has_prop ''innerHTML'' comment then Inr (nodeValue comment)
      else Inl (ReferenceError
        ''No JavaScript functionality supported for getting the text inside of a Comment node.''))"

text \<open>
  The variable \<^verbatim>\<open>search\<close> after \<^verbatim>\<open>checkSearchOption\<close>: falsy (\<open>None\<close>: undefined or the
  empty string), or a regular expression, of which only its \<^verbatim>\<open>test\<close> method is used.
  The validity functions of \<^verbatim>\<open>bySibling\<close> and \<^verbatim>\<open>byChildNodes\<close>:
\<close>

definition commentMatch :: "comment_host \<Rightarrow> (string \<Rightarrow> bool) \<Rightarrow> node \<Rightarrow> error + bool" where
  "commentMatch h test n =
     (if isComment h n then
        (case getCommentText n of Inl e \<Rightarrow> Inl e | Inr t \<Rightarrow> Inr (test t))
      else Inr False)"

definition validFn_of :: "comment_host \<Rightarrow> (string \<Rightarrow> bool) option \<Rightarrow> node \<Rightarrow> error + bool" where
  "validFn_of h search =
     (case search of Some test \<Rightarrow> commentMatch h test | None \<Rightarrow> (\<lambda>n. Inr (isComment h n)))"

text \<open>
  The host's TreeWalker over \<^verbatim>\<open>container\<close> with \<^verbatim>\<open>NodeFilter.SHOW_COMMENT\<close>:
  \<^verbatim>\<open>nextNode()\<close> visits the descendants of the root in document order, passes the nodes of
  type 8 to the filter and stops at the next accepted one (a Comment has no children, so
  a rejected one hides nothing).  An exception of the filter leaves \<^verbatim>\<open>nextNode()\<close>.
  A host that has \<^verbatim>\<open>document.createTreeWalker\<close> has the global \<^verbatim>\<open>NodeFilter\<close> as well.
\<close>

fun descendants :: "node \<Rightarrow> node list"
  and descendants_list :: "node list \<Rightarrow> node list"
where
  "descendants (Node t ps v cs) = descendants_list cs"
| "descendants_list [] = []"
| "descendants_list (c # cs) = c # descendants c @ descendants_list cs"

fun walker_loop :: "(node \<Rightarrow> error + bool) \<Rightarrow> node list \<Rightarrow> node list \<Rightarrow> error + node list" where
  "walker_loop acceptNode [] result = Inr result"
| "walker_loop acceptNode (c # cs) result =
     (case acceptNode c of
        Inl e \<Rightarrow> Inl e
      | Inr True \<Rightarrow> walker_loop acceptNode cs (result @ [c])
      | Inr False \<Rightarrow> walker_loop acceptNode cs result)"

definition walker_filter :: "(string \<Rightarrow> bool) option \<Rightarrow> node \<Rightarrow> error + bool" where
  "walker_filter search =
     (case search of
        Some test \<Rightarrow>
          (\<lambda>n. case getCommentText n of Inl e \<Rightarrow> Inl e | Inr t \<Rightarrow> Inr (test t))
      | None \<Rightarrow> (\<lambda>n. Inr True))"

text \<open>
  Each strategy returns \<^verbatim>\<open>null\<close> (\<open>None\<close>) when it is not supported, and the array it
  collected otherwise; \<open>found\<close> wraps what a walk returned.
\<close>

definition found :: "error + node list \<Rightarrow> error + node list option" where
  "found r = (case r of Inl e \<Rightarrow> Inl e | Inr result \<Rightarrow> Inr (Some result))"

definition treeWalker_nodes :: "node \<Rightarrow> (string \<Rightarrow> bool) option \<Rightarrow> error + node list" where
  "treeWalker_nodes container search =
     walker_loop (walker_filter search)
       (filter (\<lambda>c. nodeType c = 8) (descendants container)) []"

definition byTreeWalker ::
    "comment_host \<Rightarrow> node \<Rightarrow> (string \<Rightarrow> bool) option \<Rightarrow> error + node list option" where
  "byTreeWalker h container search =
     (if \<not> createTreeWalker h then Inr None
      else found (treeWalker_nodes container search))"

definition bySibling ::
    "comment_host \<Rightarrow> node \<Rightarrow> (string \<Rightarrow> bool) option \<Rightarrow> error + node list option" where
  "bySibling h container search =
     (if has_prop ''firstChild'' container \<and> has_prop ''nextSibling'' container
      then found (bySiblingTraversal (validFn_of h search) container)
      else Inr None)"

definition hasChildFn_of :: "node \<Rightarrow> node \<Rightarrow> bool" where
  "hasChildFn_of container =
     (if has_prop ''hasChildNodes'' container then hasChildNodes else hasChildByLength)"

definition byChildNodes ::
    "comment_host \<Rightarrow> node \<Rightarrow> (string \<Rightarrow> bool) option \<Rightarrow> error + node list option" where
  "byChildNodes h container search =
     (if has_prop ''childNodes'' container
      then found (childNodesTraversal (validFn_of h search) (hasChildFn_of container) container)
      else Inr None)"

definition no_functionality :: error where
  "no_functionality =
     ReferenceError ''No JavaScript functionality found for getting Comment Nodes.''"

definition getAllComments_tryMethods ::
    "comment_host \<Rightarrow> node \<Rightarrow> (string \<Rightarrow> bool) option \<Rightarrow> error + node list" where
  "getAllComments_tryMethods h container search =
     (case byTreeWalker h container search of
        Inl e \<Rightarrow> Inl e
      | Inr (Some result) \<Rightarrow> Inr result
      | Inr None \<Rightarrow>
          (case bySibling h container search of
             Inl e \<Rightarrow> Inl e
           | Inr (Some result) \<Rightarrow> Inr result
           | Inr None \<Rightarrow>
               (case byChildNodes h container search of
                  Inl e \<Rightarrow> Inl e
                | Inr (Some result) \<Rightarrow> Inr result
                | Inr None \<Rightarrow> Inl no_functionality)))"

section \<open>The cascade of getAllComments\<close>

definition no_comment_text :: error where
  "no_comment_text =
     ReferenceError
       ''No JavaScript functionality supported for getting the text inside of a Comment node.''"

lemma found_simps [simp]:
  "found (Inl e) = Inl e"
  "found (Inr result) = Inr (Some result)"
  "found r \<noteq> Inr None"
  "found r = Inl e \<longleftrightarrow> r = Inl e"
  by (simp_all add: found_def split: sum.splits)

lemma cascade_found:
  "(case found r of Inl e \<Rightarrow> Inl e | Inr None \<Rightarrow> other | Inr (Some result) \<Rightarrow> Inr result) = r"
  by (cases r) simp_all

lemma walker_loop_error:
  "walker_loop acceptNode cs result = Inl e \<Longrightarrow> \<exists>n. acceptNode n = Inl e"
proof (induction cs arbitrary: result)
  case Nil
  then show ?case by simp
next
  case (Cons c cs)
  show ?case
  proof (cases "acceptNode c")
    case (Inl e')
    with Cons.prems show ?thesis by auto
  next
    case (Inr b)
    with Cons.prems Cons.IH show ?thesis by (cases b) auto
  qed
qed

lemma sibling_walk_error:
  "bySiblingTraversal validFn p = Inl e \<Longrightarrow> \<exists>n. validFn n = Inl e"
  "sibling_loop validFn cs result = Inl e \<Longrightarrow> \<exists>n. validFn n = Inl e"
proof (induction validFn p and validFn cs result rule: bySiblingTraversal_sibling_loop.induct)
  case (1 validFn t ps v cs)
  then show ?case by simp
next
  case (2 validFn result)
  then show ?case by simp
next
  case (3 validFn current siblings result)
  show ?case
  proof (cases "validFn current")
    case (Inl e')
    with "3.prems" show ?thesis by auto
  next
    case (Inr b)
    show ?thesis
    proof (cases b)
      case True
      with Inr "3.prems" "3.IH"(1) show ?thesis by simp
    next
      case False
      show ?thesis
      proof (cases "firstChild current \<noteq> None")
        case nochild: False
        with Inr False "3.prems" "3.IH"(4) show ?thesis by simp
      next
        case child: True
        show ?thesis
        proof (cases "bySiblingTraversal validFn current")
          case sube: (Inl e')
          with Inr False child "3.prems" "3.IH"(2) show ?thesis by simp
        next
          case subr: (Inr sub)
          with Inr False child "3.prems" "3.IH"(3) show ?thesis by simp
        qed
      qed
    qed
  qed
qed

lemma childNodes_walk_eq:
  "childNodesTraversal validFn (hasChildFn_of container) p = bySiblingTraversal validFn p"
  by (rule walks_agree(1)) (simp add: hasChildFn_of_def hasChildNodes_def hasChildByLength_def)

lemma getCommentText_error: "getCommentText n = Inl e \<Longrightarrow> e = no_comment_text"
  by (simp add: getCommentText_def no_comment_text_def split: if_splits)

lemma validFn_of_error:
  assumes "validFn_of h search n = Inl e"
  shows "e = no_comment_text \<and> search \<noteq> None"
proof (cases search)
  case None
  with assms show ?thesis by (simp add: validFn_of_def)
next
  case (Some test)
  with assms have "getCommentText n = Inl e"
    by (simp add: validFn_of_def commentMatch_def split: if_splits sum.splits)
  with Some show ?thesis by (simp add: getCommentText_error)
qed

lemma walker_filter_error:
  assumes "walker_filter search n = Inl e"
  shows "e = no_comment_text \<and> search \<noteq> None"
proof (cases search)
  case None
  with assms show ?thesis by (simp add: walker_filter_def)
next
  case (Some test)
  with assms have "getCommentText n = Inl e"
    by (simp add: walker_filter_def split: sum.splits)
  with Some show ?thesis by (simp add: getCommentText_error)
qed

lemma strategy_errors:
  "byTreeWalker h container search = Inl e \<Longrightarrow> e = no_comment_text \<and> search \<noteq> None"
  "bySibling h container search = Inl e \<Longrightarrow> e = no_comment_text \<and> search \<noteq> None"
  "byChildNodes h container search = Inl e \<Longrightarrow> e = no_comment_text \<and> search \<noteq> None"
proof -
  assume "byTreeWalker h container search = Inl e"
  then have "treeWalker_nodes container search = Inl e"
    by (simp add: byTreeWalker_def split: if_splits)
  then obtain n where "walker_filter search n = Inl e"
    unfolding treeWalker_nodes_def using walker_loop_error by blast
  then show "e = no_comment_text \<and> search \<noteq> None"
    by (rule walker_filter_error)
next
  assume "bySibling h container search = Inl e"
  then have "bySiblingTraversal (validFn_of h search) container = Inl e"
    by (simp add: bySibling_def split: if_splits)
  then obtain n where "validFn_of h search n = Inl e"
    using sibling_walk_error(1) by blast
  then show "e = no_comment_text \<and> search \<noteq> None"
    by (rule validFn_of_error)
next
  assume "byChildNodes h container search = Inl e"
  then have "bySiblingTraversal (validFn_of h search) container = Inl e"
    by (simp add: byChildNodes_def childNodes_walk_eq split: if_splits)
  then obtain n where "validFn_of h search n = Inl e"
    using sibling_walk_error(1) by blast
  then show "e = no_comment_text \<and> search \<noteq> None"
    by (rule validFn_of_error)
qed

lemma no_functionality_neq: "no_functionality \<noteq> no_comment_text"
  by (simp add: no_functionality_def no_comment_text_def)

definition none_supported :: "comment_host \<Rightarrow> node \<Rightarrow> bool" where
  "none_supported h container \<longleftrightarrow>
     \<not> createTreeWalker h \<and>
     \<not> (has_prop ''firstChild'' container \<and> has_prop ''nextSibling'' container) \<and>
     \<not> has_prop ''childNodes'' container"

lemma tryMethods_cascade:
  "getAllComments_tryMethods h container search =
     (if createTreeWalker h then treeWalker_nodes container search
      else if has_prop ''firstChild'' container \<and> has_prop ''nextSibling'' container then
        bySiblingTraversal (validFn_of h search) container
      else if has_prop ''childNodes'' container then
        childNodesTraversal (validFn_of h search) (hasChildFn_of container) container
      else Inl no_functionality)"
  by (simp add: getAllComments_tryMethods_def byTreeWalker_def bySibling_def
      byChildNodes_def cascade_found)

lemma tryMethods_errors:
  assumes "getAllComments_tryMethods h container search = Inl e"
  shows "(e = no_functionality \<and> none_supported h container) \<or>
         (e = no_comment_text \<and> search \<noteq> None \<and> \<not> none_supported h container)"
proof (cases "none_supported h container")
  case True
  then have "getAllComments_tryMethods h container search = Inl no_functionality"
    by (auto simp: tryMethods_cascade none_supported_def)
  with assms True show ?thesis by simp
next
  case False
  have "e = no_comment_text \<and> search \<noteq> None"
  proof (cases "createTreeWalker h")
    case True
    with assms have "byTreeWalker h container search = Inl e"
      by (simp add: tryMethods_cascade byTreeWalker_def)
    then show ?thesis by (rule strategy_errors(1))
  next
    case notw: False
    show ?thesis
    proof (cases "has_prop ''firstChild'' container \<and> has_prop ''nextSibling'' container")
      case True
      with notw assms have "bySibling h container search = Inl e"
        by (simp add: tryMethods_cascade bySibling_def)
      then show ?thesis by (rule strategy_errors(2))
    next
      case nots: False
      with notw False have "has_prop ''childNodes'' container"
        by (auto simp: none_supported_def)
      with notw nots assms have "byChildNodes h container search = Inl e"
        by (auto simp: tryMethods_cascade byChildNodes_def split: if_splits)
      then show ?thesis by (rule strategy_errors(3))
    qed
  qed
  with False show ?thesis by simp
qed

text \<open>
  Claim C7 as stated fails.  With a search phrase, a container whose only child is a
  Comment that has none of \<^verbatim>\<open>nodeValue\<close>, \<^verbatim>\<open>textContent\<close>, \<^verbatim>\<open>innerHTML\<close>, and no
  TreeWalker: the sibling-pointer strategy is supported and runs, and the call throws the
  ReferenceError of \<^verbatim>\<open>getCommentText\<close>.
\<close>

theorem C7_ReferenceError_although_supported:
  "has_prop ''firstChild''
     (Node 1 [''firstChild'', ''nextSibling'', ''childNodes''] [] [Node 8 [] ''note'' []]) \<and>
   has_prop ''nextSibling''
     (Node 1 [''firstChild'', ''nextSibling'', ''childNodes''] [] [Node 8 [] ''note'' []]) \<and>
   getAllComments_tryMethods \<lparr>createTreeWalker = False, hasComment = True\<rparr>
     (Node 1 [''firstChild'', ''nextSibling'', ''childNodes''] [] [Node 8 [] ''note'' []])
     (Some (\<lambda>t. t = ''note'')) =
   Inl (ReferenceError
     ''No JavaScript functionality supported for getting the text inside of a Comment node.'')"
  by (simp add: tryMethods_cascade has_prop_def
      validFn_of_def commentMatch_def isComment_def getCommentText_def)

text \<open>
  Claim C7, amended.  \<^verbatim>\<open>tryMethods\<close> gives the outcome of the first supported strategy in
  the order TreeWalker, sibling-pointer traversal, \<^verbatim>\<open>childNodes\<close> traversal: its array, or
  the ReferenceError of \<^verbatim>\<open>getCommentText\<close> that the strategy lets through (possible only
  with a search phrase).  It throws the ReferenceError "No JavaScript functionality found
  for getting Comment Nodes." exactly when none of the three strategies is supported, and
  without a search phrase it throws nothing else.
\<close>

theorem C7_first_supported_strategy:
  "getAllComments_tryMethods h container search =
     (if createTreeWalker h then treeWalker_nodes container search
      else if has_prop ''firstChild'' container \<and> has_prop ''nextSibling'' container then
        bySiblingTraversal (validFn_of h search) container
      else if has_prop ''childNodes'' container then
        childNodesTraversal (validFn_of h search) (hasChildFn_of container) container
      else Inl no_functionality) \<and>
   (getAllComments_tryMethods h container search = Inl no_functionality \<longleftrightarrow>
      none_supported h container) \<and>
   (search = None \<longrightarrow>
      ((\<exists>e. getAllComments_tryMethods h container search = Inl e) \<longleftrightarrow>
         none_supported h container)) \<and>
   (\<forall>e. getAllComments_tryMethods h container search = Inl e \<longrightarrow>
      e = no_functionality \<or> e = no_comment_text \<and> search \<noteq> None)"
proof (intro conjI)
  show "getAllComments_tryMethods h container search =
     (if createTreeWalker h then treeWalker_nodes container search
      else if has_prop ''firstChild'' container \<and> has_prop ''nextSibling'' container then
        bySiblingTraversal (validFn_of h search) container
      else if has_prop ''childNodes'' container then
        childNodesTraversal (validFn_of h search) (hasChildFn_of container) container
      else Inl no_functionality)"
    by (rule tryMethods_cascade)
  have none: "none_supported h container \<Longrightarrow>
      getAllComments_tryMethods h container search = Inl no_functionality"
    by (auto simp: tryMethods_cascade none_supported_def)
  show nf: "getAllComments_tryMethods h container search = Inl no_functionality \<longleftrightarrow>
      none_supported h container"
    using tryMethods_errors [of h container search no_functionality] none
      no_functionality_neq by blast
  show "search = None \<longrightarrow>
      ((\<exists>e. getAllComments_tryMethods h container search = Inl e) \<longleftrightarrow>
         none_supported h container)"
    using tryMethods_errors [of h container search] none by blast
  show "\<forall>e. getAllComments_tryMethods h container search = Inl e \<longrightarrow>
      e = no_functionality \<or> e = no_comment_text \<and> search \<noteq> None"
    using tryMethods_errors [of h container search] by blast
qed

theorem C7_first_supported_strategy_witness:
  "getAllComments_tryMethods \<lparr>createTreeWalker = False, hasComment = True\<rparr>
     (Node 1 [''firstChild'', ''nextSibling'', ''childNodes''] []
        [Node 8 [''nodeValue''] ''note'' [], Node 1 [] [] [Node 8 [] ''x'' []]]) None =
   Inr [Node 8 [''nodeValue''] ''note'' [], Node 8 [] ''x'' []] \<and>
   none_supported \<lparr>createTreeWalker = False, hasComment = True\<rparr>
     (Node 1 [] [] [Node 8 [''nodeValue''] ''note'' []]) \<and>
   getAllComments_tryMethods \<lparr>createTreeWalker = False, hasComment = True\<rparr>
     (Node 1 [] [] [Node 8 [''nodeValue''] ''note'' []]) None =
   Inl (ReferenceError ''No JavaScript functionality found for getting Comment Nodes.'')"
proof -
  note first = C7_first_supported_strategy
      [of "\<lparr>createTreeWalker = False, hasComment = True\<rparr>"
        "Node 1 [''firstChild'', ''nextSibling'', ''childNodes''] []
          [Node 8 [''nodeValue''] ''note'' [], Node 1 [] [] [Node 8 [] ''x'' []]]" None,
        THEN conjunct1]
  note none = C7_first_supported_strategy
      [of "\<lparr>createTreeWalker = False, hasComment = True\<rparr>"
        "Node 1 [] [] [Node 8 [''nodeValue''] ''note'' []]" None,
        THEN conjunct2, THEN conjunct1]
  have a: "getAllComments_tryMethods \<lparr>createTreeWalker = False, hasComment = True\<rparr>
     (Node 1 [''firstChild'', ''nextSibling'', ''childNodes''] []
        [Node 8 [''nodeValue''] ''note'' [], Node 1 [] [] [Node 8 [] ''x'' []]]) None =
     Inr [Node 8 [''nodeValue''] ''note'' [], Node 8 [] ''x'' []]"
    by (subst first) (simp add: has_prop_def validFn_of_def isComment_def firstChild_def)
  have b: "none_supported \<lparr>createTreeWalker = False, hasComment = True\<rparr>
     (Node 1 [] [] [Node 8 [''nodeValue''] ''note'' []])"
    by (simp add: none_supported_def has_prop_def)
  from none b have c:
    "getAllComments_tryMethods \<lparr>createTreeWalker = False, hasComment = True\<rparr>
       (Node 1 [] [] [Node 8 [''nodeValue''] ''note'' []]) None =
     Inl (ReferenceError ''No JavaScript functionality found for getting Comment Nodes.'')"
    by (simp add: no_functionality_def)
  from a b c show ?thesis by simp
qed


section \<open>ContainsCSSClass.js and AddCSSClass.js: strings\<close>

text \<open>
  Strings are lists of code units below 256.  The class of the source's regular
  expressions \<^verbatim>\<open>[\s\uFEFF\xA0]\<close>, restricted to these code units, is tab, line feed,
  vertical tab, form feed, carriage return, space and no-break space; \<^verbatim>\<open>\w\<close> is a
  letter, a digit or the underscore.
\<close>

definition is_space :: "char \<Rightarrow> bool" where
  "is_space c \<longleftrightarrow> of_char c \<in> {9, 10, 11, 12, 13, 32, 160 :: nat}"

definition is_alpha :: "char \<Rightarrow> bool" where
  "is_alpha c \<longleftrightarrow>
     (65 \<le> (of_char c :: nat) \<and> (of_char c :: nat) \<le> 90) \<or>
     (97 \<le> (of_char c :: nat) \<and> (of_char c :: nat) \<le> 122)"

definition is_word :: "char \<Rightarrow> bool" where
  "is_word c \<longleftrightarrow>
     is_alpha c \<or> (48 \<le> (of_char c :: nat) \<and> (of_char c :: nat) \<le> 57) \<or> c = CHR ''_''"

text \<open>\<^verbatim>\<open>s.trim()\<close>\<close>

definition trim :: "string \<Rightarrow> string" where
  "trim s = rev (dropWhile is_space (rev (dropWhile is_space s)))"

text \<open>\<^verbatim>\<open>/[\s\uFEFF\xA0]/.test(s)\<close>\<close>

definition has_space :: "string \<Rightarrow> bool" where
  "has_space s = (\<exists>c \<in> set s. is_space c)"

text \<open>
  \<^verbatim>\<open>s.split(/[\s\uFEFF\xA0]+/)\<close>: the pieces between the maximal runs of white space;
  the empty string gives one empty piece.
\<close>

function js_split :: "string \<Rightarrow> string list" where
  "js_split s =
     (if dropWhile (\<lambda>c. \<not> is_space c) s = [] then [takeWhile (\<lambda>c. \<not> is_space c) s]
      else takeWhile (\<lambda>c. \<not> is_space c) s
        # js_split (dropWhile is_space (dropWhile (\<lambda>c. \<not> is_space c) s)))"
  by pat_completeness auto
termination
proof (relation "measure length")
  show "wf (measure length)" by simp
next
  fix s :: string
  assume ne: "dropWhile (\<lambda>c. \<not> is_space c) s \<noteq> []"
  then have "is_space (hd (dropWhile (\<lambda>c. \<not> is_space c) s))"
    using hd_dropWhile [of "\<lambda>c. \<not> is_space c" s] by simp
  with ne have "length (dropWhile is_space (dropWhile (\<lambda>c. \<not> is_space c) s)) <
      length (dropWhile (\<lambda>c. \<not> is_space c) s)"
    by (cases "dropWhile (\<lambda>c. \<not> is_space c) s")
      (simp_all add: le_imp_less_Suc length_dropWhile_le)
  also have "\<dots> \<le> length s" by (rule length_dropWhile_le)
  finally show "(dropWhile is_space (dropWhile (\<lambda>c. \<not> is_space c) s), s) \<in> measure length"
    by simp
qed

declare js_split.simps [simp del]

text \<open>\<^verbatim>\<open>/^\-?[a-zA-Z_]{1}[\w\-]*$/.test(entry)\<close>\<close>

definition css12_name_rest :: "string \<Rightarrow> bool" where
  "css12_name_rest s =
     (case s of
        [] \<Rightarrow> False
      | c # cs \<Rightarrow> (is_alpha c \<or> c = CHR ''_'') \<and> list_all (\<lambda>x. is_word x \<or> x = CHR ''-'') cs)"

definition css12_name :: "string \<Rightarrow> bool" where
  "css12_name entry =
     (case entry of
        [] \<Rightarrow> False
      | c # cs \<Rightarrow> (c = CHR ''-'' \<and> css12_name_rest cs) \<or> css12_name_rest entry)"

text \<open>\<^verbatim>\<open>entry.replace(/\0/g, '')\<close>\<close>

definition remove_nul :: "string \<Rightarrow> string" where
  "remove_nul s = filter (\<lambda>c. of_char c \<noteq> (0 :: nat)) s"

section \<open>ContainsCSSClass.js and AddCSSClass.js: the host and its elements\<close>

text \<open>
  An object passed as an element.  \<open>instanceofElement\<close> is \<^verbatim>\<open>obj instanceof Element\<close>;
  \<open>style_backgroundSize\<close> is \<open>None\<close> when the object has no \<^verbatim>\<open>style\<close>, and otherwise
  the value of \<^verbatim>\<open>style.backgroundSize\<close> (\<open>None\<close> for \<^verbatim>\<open>undefined\<close>); \<open>class_attr\<close> is the
  value of the \<^verbatim>\<open>class\<close> attribute, \<open>None\<close> when the element has none.  The four flags say
  whether \<^verbatim>\<open>classList\<close> (with \<^verbatim>\<open>contains\<close> and \<^verbatim>\<open>add\<close>), a string-typed \<^verbatim>\<open>className\<close>,
  \<^verbatim>\<open>getAttribute\<close> and \<^verbatim>\<open>setAttribute\<close> exist on the object.
\<close>

record element =
  instanceofElement :: bool
  el_nodeType :: nat
  style_backgroundSize :: "string option option"
  class_attr :: "string option"
  has_classList :: bool
  has_className :: bool
  has_getAttribute :: bool
  has_setAttribute :: bool

text \<open>
  The host: whether the global \<^verbatim>\<open>Element\<close> is defined; the property names every object
  literal inherits (\<^verbatim>\<open>name in {}\<close> is true for them); the regular-expression engine,
  \<open>RegExp_test source subject\<close> being \<^verbatim>\<open>new RegExp(source).test(subject)\<close> with \<open>Inl\<close> for
  the SyntaxError of a malformed source; and the element
  \<^verbatim>\<open>document.createElement("div")\<close> that \<^verbatim>\<open>addCSSClass\<close> probes.
\<close>

record css_host =
  Element_defined :: bool
  proto_keys :: "string list"
  RegExp_test :: "string \<Rightarrow> string \<Rightarrow> error + bool"
  testElement :: element

text \<open>
  The host's views of the \<^verbatim>\<open>class\<close> attribute: \<^verbatim>\<open>className\<close> is its value or the empty
  string, \<^verbatim>\<open>getAttribute("class")\<close> its value or \<^verbatim>\<open>null\<close>, and \<^verbatim>\<open>classList\<close> the tokens
  between runs of ASCII white space (tab, line feed, form feed, carriage return, space),
  each kept once, at its first position.
\<close>

definition is_ascii_space :: "char \<Rightarrow> bool" where
  "is_ascii_space c \<longleftrightarrow> of_char c \<in> {9, 10, 12, 13, 32 :: nat}"

fun tokens_of :: "string \<Rightarrow> string \<Rightarrow> string list" where
  "tokens_of [] cur = (if cur = [] then [] else [cur])"
| "tokens_of (c # cs) cur =
     (if is_ascii_space c then (if cur = [] then tokens_of cs [] else cur # tokens_of cs [])
      else tokens_of cs (cur @ [c]))"

definition classList_tokens :: "element \<Rightarrow> string list" where
  "classList_tokens e =
     (case class_attr e of None \<Rightarrow> [] | Some v \<Rightarrow> rev (remdups (rev (tokens_of v []))))"

definition className :: "element \<Rightarrow> string" where
  "className e = (case class_attr e of None \<Rightarrow> [] | Some v \<Rightarrow> v)"

section \<open>ContainsCSSClass.js and AddCSSClass.js: checking the class parameter\<close>

text \<open>
  The argument passed for the class names: a string, an array (an entry that is not a
  string is \<open>None\<close>), or any other value.
\<close>

datatype class_arg = ClassString string | ClassArray "string option list" | ClassOther

text \<open>
  \<^verbatim>\<open>checkClassArray\<close>.  The loop runs over the array while \<^verbatim>\<open>addClassEntries\<close>
  (\<^verbatim>\<open>splitClassEntry\<close> in AddCSSClass.js) splices further entries in behind the current
  index: \<open>todo\<close> holds the entries from \<^verbatim>\<open>index\<close> on, \<open>processed\<close> the entries before it as
  the loop has rewritten them (\<open>None\<close> is \<^verbatim>\<open>null\<close>), \<open>checked\<close> the keys of the object
  \<^verbatim>\<open>checked\<close>.
\<close>

definition entry_weight :: "string option \<Rightarrow> nat" where
  "entry_weight x = (case x of None \<Rightarrow> 1 | Some s \<Rightarrow> Suc (length s))"

definition split_entry :: "string \<Rightarrow> string option list \<Rightarrow> string \<times> string option list" where
  "split_entry entry rest =
     (if has_space entry then
        (case js_split entry of
           [] \<Rightarrow> (entry, rest)
         | first # others \<Rightarrow> (first, map Some others @ rest))
      else (entry, rest))"

definition check_syntax :: "bool \<Rightarrow> string \<Rightarrow> error + string" where
  "check_syntax css3 entry =
     (if css3 then Inr (remove_nul entry)
      else if \<not> css12_name entry
        then Inl (RangeError ''Entry must be a validly formatted CSS1/CSS2 class name.'')
      else Inr entry)"

lemma sum_weight_js_split:
  "sum_list (map (\<lambda>t. Suc (length t)) (js_split s)) \<le> Suc (length s)"
proof (induction s rule: js_split.induct)
  case (1 s)
  let ?tok = "takeWhile (\<lambda>c. \<not> is_space c) s"
  let ?rest = "dropWhile (\<lambda>c. \<not> is_space c) s"
  have len: "length s = length ?tok + length ?rest"
    by (metis length_append takeWhile_dropWhile_id)
  show ?case
  proof (cases "?rest = []")
    case True
    with len show ?thesis by (subst js_split.simps) simp
  next
    case False
    then have "is_space (hd ?rest)"
      using hd_dropWhile [of "\<lambda>c. \<not> is_space c" s] by simp
    with False have "Suc (length (dropWhile is_space ?rest)) \<le> length ?rest"
      by (cases ?rest) (simp_all add: length_dropWhile_le)
    with 1 [OF False] False len show ?thesis
      by (subst js_split.simps) simp
  qed
qed

lemma length_trim_le: "length (trim s) \<le> length s"
proof -
  have "length (trim s) \<le> length (dropWhile is_space s)"
    unfolding trim_def by (metis length_dropWhile_le length_rev)
  also have "\<dots> \<le> length s" by (rule length_dropWhile_le)
  finally show ?thesis .
qed

lemma split_entry_weight:
  "sum_list (map entry_weight (snd (split_entry (trim raw) rest))) <
     sum_list (map entry_weight (Some raw # rest))"
proof (cases "has_space (trim raw)")
  case False
  then show ?thesis by (simp add: split_entry_def entry_weight_def)
next
  case True
  show ?thesis
  proof (cases "js_split (trim raw)")
    case Nil
    with True show ?thesis by (simp add: split_entry_def entry_weight_def)
  next
    case (Cons first others)
    have "sum_list (map (\<lambda>t. Suc (length t)) (first # others)) \<le> Suc (length (trim raw))"
      using sum_weight_js_split [of "trim raw"] Cons by simp
    then have "sum_list (map (\<lambda>t. Suc (length t)) others) \<le> length (trim raw)"
      by simp
    moreover have "map entry_weight (map Some others) = map (\<lambda>t. Suc (length t)) others"
      by (simp add: entry_weight_def)
    ultimately have "sum_list (map entry_weight (map Some others)) \<le> length raw"
      using length_trim_le [of raw] by (simp only: order_trans)
    with True Cons show ?thesis
      by (simp add: split_entry_def entry_weight_def)
  qed
qed

function checkClassArray_loop ::
  "css_host \<Rightarrow> bool \<Rightarrow> bool \<Rightarrow> string option list \<Rightarrow> string option list \<Rightarrow> string list \<Rightarrow> nat
    \<Rightarrow> error + string option list \<times> nat"
where
  "checkClassArray_loop h css3 emptyCheck [] processed checked numDup = Inr (processed, numDup)"
| "checkClassArray_loop h css3 emptyCheck (None # rest) processed checked numDup =
     Inl (TypeError ''Entry of the argument array is not a string.'')"
| "checkClassArray_loop h css3 emptyCheck (Some raw # rest) processed checked numDup =
     (if trim raw = [] \<and> emptyCheck
      then Inl (RangeError ''Entry of the argument array is an empty string.'')
      else
        (case check_syntax css3 (fst (split_entry (trim raw) rest)) of
           Inl e \<Rightarrow> Inl e
         | Inr entry \<Rightarrow>
             (if entry \<noteq> [] then
                (if entry \<in> set checked \<or> entry \<in> set (proto_keys h)
                 then checkClassArray_loop h css3 emptyCheck (snd (split_entry (trim raw) rest))
                        (processed @ [None]) checked (numDup + 1)
                 else checkClassArray_loop h css3 emptyCheck (snd (split_entry (trim raw) rest))
                        (processed @ [Some entry]) (entry # checked) numDup)
              else checkClassArray_loop h css3 emptyCheck (snd (split_entry (trim raw) rest))
                     (processed @ [Some entry]) checked numDup)))"
  by pat_completeness auto
termination
  by (relation "measure (\<lambda>(h, css3, emptyCheck, todo, processed, checked, numDup).
        sum_list (map entry_weight todo))")
    (simp_all only: wf_measure in_measure prod.case split_entry_weight)

text \<open>
  After the loop, an array with duplicates is copied without its \<^verbatim>\<open>null\<close> entries; an
  array without duplicates holds no \<^verbatim>\<open>null\<close>.  The loop rewrites the array the caller
  passed, in place; the list returned here is what the rest of the call reads, and what
  the caller's array holds after the call is not followed.
\<close>

definition checkClassArray ::
    "css_host \<Rightarrow> bool \<Rightarrow> bool \<Rightarrow> string option list \<Rightarrow> error + string list" where
  "checkClassArray h css3 emptyCheck argArray =
     (case checkClassArray_loop h css3 emptyCheck argArray [] [] 0 of
        Inl e \<Rightarrow> Inl e
      | Inr (entries, numDup) \<Rightarrow> Inr (List.map_filter (\<lambda>x. x) entries))"

text \<open>
  \<^verbatim>\<open>checkClassParameter\<close>.  Its last branch builds a TypeError and then evaluates the
  undeclared identifier \<^verbatim>\<open>oldClass\<close> to log it, which throws a ReferenceError first.
\<close>

definition checkClassParameter ::
    "css_host \<Rightarrow> bool \<Rightarrow> bool \<Rightarrow> class_arg \<Rightarrow> error + string list" where
  "checkClassParameter h css3 emptyCheck argValue =
     (case argValue of
        ClassString s \<Rightarrow>
          (if emptyCheck \<and> trim s = []
           then Inl (RangeError ''Parameter is an empty string value.'')
           else checkClassArray h css3 emptyCheck (map Some (js_split (trim s))))
      | ClassArray entries \<Rightarrow>
          (if entries = []
           then Inl (RangeError ''Parameter must not be an empty array and must contain string entries.'')
           else checkClassArray h css3 emptyCheck entries)
      | ClassOther \<Rightarrow> Inl (ReferenceError ''oldClass is not defined''))"

section \<open>ContainsCSSClass.js\<close>

text \<open>
  \<^verbatim>\<open>isElement(obj)\<close>, the same in both files: \<^verbatim>\<open>obj instanceof Element\<close> when the global
  \<^verbatim>\<open>Element\<close> is defined, and otherwise
  \<^verbatim>\<open>!!(obj && obj.nodeType === 1 && obj.style)\<close>.  \<open>None\<close> is a value that is not an object.
\<close>

definition css_isElement :: "css_host \<Rightarrow> element option \<Rightarrow> bool" where
  "css_isElement h obj =
     (case obj of
        None \<Rightarrow> False
      | Some e \<Rightarrow>
          (if Element_defined h then instanceofElement e
           else el_nodeType e = 1 \<and> style_backgroundSize e \<noteq> None))"

text \<open>
  \<^verbatim>\<open>supportsCSS3()\<close> of \<^verbatim>\<open>containsCSSClass\<close> is
  \<^verbatim>\<open>elementTarget.style.backgroundSize === "string"\<close>; reading a property of an undefined
  \<^verbatim>\<open>style\<close> is a TypeError of the engine.
\<close>

definition contains_supportsCSS3 :: "element \<Rightarrow> error + bool" where
  "contains_supportsCSS3 e =
     (case style_backgroundSize e of
        None \<Rightarrow> Inl (TypeError ''Cannot read properties of undefined'')
      | Some v \<Rightarrow> Inr (v = Some ''string''))"

text \<open>
  The two search functions, applied to the arguments the loops pass.  \<^verbatim>\<open>byClSearch\<close> reads
  its first argument only.  \<^verbatim>\<open>checkWithRegex(elementClass, classEntry)\<close> builds
  \<^verbatim>\<open>new RegExp("\\b" + classEntry + "\\b")\<close>; called with one argument its \<^verbatim>\<open>classEntry\<close> is
  \<^verbatim>\<open>undefined\<close>, which the concatenation turns into the text \<^verbatim>\<open>undefined\<close>.
\<close>

definition word_boundary :: string where
  "word_boundary = [char_of (92 :: nat), CHR ''b'']"

definition byClSearch :: "element \<Rightarrow> string \<Rightarrow> string option \<Rightarrow> error + bool" where
  "byClSearch e cssClass unused = Inr (cssClass \<in> set (classList_tokens e))"

definition checkWithRegex :: "css_host \<Rightarrow> string \<Rightarrow> string option \<Rightarrow> error + bool" where
  "checkWithRegex h elementClass classEntry =
     RegExp_test h
       (word_boundary @ (case classEntry of None \<Rightarrow> ''undefined'' | Some c \<Rightarrow> c) @ word_boundary)
       elementClass"

fun singleMatchClassString ::
    "(string \<Rightarrow> string option \<Rightarrow> error + bool) \<Rightarrow> string \<Rightarrow> string list \<Rightarrow> error + bool" where
  "singleMatchClassString searchFn elementClass [] = Inr False"
| "singleMatchClassString searchFn elementClass (classEntry # rest) =
     (case searchFn elementClass (Some classEntry) of
        Inl e \<Rightarrow> Inl e
      | Inr True \<Rightarrow> Inr True
      | Inr False \<Rightarrow> singleMatchClassString searchFn elementClass rest)"

fun singleMatchOneParam ::
    "(string \<Rightarrow> string option \<Rightarrow> error + bool) \<Rightarrow> string list \<Rightarrow> error + bool" where
  "singleMatchOneParam searchFn [] = Inr False"
| "singleMatchOneParam searchFn (classEntry # rest) =
     (case searchFn classEntry None of
        Inl e \<Rightarrow> Inl e
      | Inr True \<Rightarrow> Inr True
      | Inr False \<Rightarrow> singleMatchOneParam searchFn rest)"

fun allMatchClassString ::
    "(string \<Rightarrow> string option \<Rightarrow> error + bool) \<Rightarrow> string \<Rightarrow> string list \<Rightarrow> error + bool" where
  "allMatchClassString searchFn elementClass [] = Inr True"
| "allMatchClassString searchFn elementClass (classEntry # rest) =
     (case searchFn elementClass (Some classEntry) of
        Inl e \<Rightarrow> Inl e
      | Inr False \<Rightarrow> Inr False
      | Inr True \<Rightarrow> allMatchClassString searchFn elementClass rest)"

fun allMatchOneParam ::
    "(string \<Rightarrow> string option \<Rightarrow> error + bool) \<Rightarrow> string list \<Rightarrow> error + bool" where
  "allMatchOneParam searchFn [] = Inr True"
| "allMatchOneParam searchFn (classEntry # rest) =
     (case searchFn classEntry None of
        Inl e \<Rightarrow> Inl e
      | Inr False \<Rightarrow> Inr False
      | Inr True \<Rightarrow> allMatchOneParam searchFn rest)"

text \<open>
  \<^verbatim>\<open>checkClassEntries(searchFn, elementClass)\<close>; \<open>elementClass\<close> is \<open>None\<close> when the
  argument is not passed, and it is truthy when it is a non-empty string.
\<close>

definition checkClassEntries ::
    "jsval \<Rightarrow> string list \<Rightarrow> (string \<Rightarrow> string option \<Rightarrow> error + bool) \<Rightarrow> string option
      \<Rightarrow> error + bool" where
  "checkClassEntries singleMatch searchClass searchFn elementClass =
     (if truthy singleMatch then
        (case elementClass of
           Some c \<Rightarrow>
             (if c \<noteq> [] then singleMatchClassString searchFn c searchClass
              else singleMatchOneParam searchFn searchClass)
         | None \<Rightarrow> singleMatchOneParam searchFn searchClass)
      else
        (case elementClass of
           Some c \<Rightarrow>
             (if c \<noteq> [] then allMatchClassString searchFn c searchClass
              else allMatchOneParam searchFn searchClass)
         | None \<Rightarrow> allMatchOneParam searchFn searchClass))"

text \<open>The three methods return \<open>None\<close> for \<^verbatim>\<open>undefined\<close> (not supported).\<close>

definition contains_byClassList ::
    "css_host \<Rightarrow> element \<Rightarrow> string list \<Rightarrow> jsval \<Rightarrow> (error + bool) option" where
  "contains_byClassList h e searchClass singleMatch =
     (if has_classList e
      then Some (checkClassEntries singleMatch searchClass (byClSearch e) None)
      else None)"

definition contains_byClassName ::
    "css_host \<Rightarrow> element \<Rightarrow> string list \<Rightarrow> jsval \<Rightarrow> (error + bool) option" where
  "contains_byClassName h e searchClass singleMatch =
     (if has_className e
      then Some (checkClassEntries singleMatch searchClass (checkWithRegex h) (Some (className e)))
      else None)"

definition contains_byAttribute ::
    "css_host \<Rightarrow> element \<Rightarrow> string list \<Rightarrow> jsval \<Rightarrow> (error + bool) option" where
  "contains_byAttribute h e searchClass singleMatch =
     (if \<not> has_getAttribute e then None
      else
        (case class_attr e of
           None \<Rightarrow> Some (Inr False)
         | Some classValue \<Rightarrow>
             (if classValue = [] then Some (Inr False)
              else if trim classValue = [] then Some (Inr False)
              else Some (checkClassEntries singleMatch searchClass (checkWithRegex h)
                     (Some (trim classValue))))))"

definition contains_tryMethods ::
    "css_host \<Rightarrow> element \<Rightarrow> string list \<Rightarrow> jsval \<Rightarrow> error + bool" where
  "contains_tryMethods h e searchClass singleMatch =
     (case contains_byClassList h e searchClass singleMatch of
        Some result \<Rightarrow> result
      | None \<Rightarrow>
          (case contains_byClassName h e searchClass singleMatch of
             Some result \<Rightarrow> result
           | None \<Rightarrow>
               (case contains_byAttribute h e searchClass singleMatch of
                  Some result \<Rightarrow> result
                | None \<Rightarrow>
                    Inl (ReferenceError
                      ''No JavaScript functions found for searching for CSS class names in an Element object.''))))"

text \<open>
  \<^verbatim>\<open>containsCSSClass(elementTarget, searchClass, singleMatch)\<close>: \<^verbatim>\<open>checkParameters()\<close>, which
  ends with \<^verbatim>\<open>if (typeof singleMatch !== "undefined") { singleMatch = false; }\<close>, then
  \<^verbatim>\<open>tryMethods()\<close>.
\<close>

definition containsCSSClass ::
    "css_host \<Rightarrow> element option \<Rightarrow> class_arg \<Rightarrow> jsval \<Rightarrow> error + bool" where
  "containsCSSClass h elementTarget searchClass singleMatch =
     (if \<not> css_isElement h elementTarget
      then Inl (TypeError ''Parameter 1, \"elementTarget\", must either be an Element object.'')
      else
        (case elementTarget of
           None \<Rightarrow> Inl (TypeError ''Parameter 1, \"elementTarget\", must either be an Element object.'')
         | Some e \<Rightarrow>
             (case contains_supportsCSS3 e of
                Inl err \<Rightarrow> Inl err
              | Inr css3 \<Rightarrow>
                  (case checkClassParameter h css3 True searchClass of
                     Inl err \<Rightarrow> Inl err
                   | Inr classes \<Rightarrow>
                       contains_tryMethods h e classes
                         (if singleMatch \<noteq> JUndefined then JBoolean False else singleMatch)))))"

text \<open>
  The value of \<^verbatim>\<open>singleMatch\<close> that reaches \<^verbatim>\<open>checkClassEntries\<close> is \<^verbatim>\<open>false\<close> or
  \<^verbatim>\<open>undefined\<close>, so every method takes the branch that requires all class names.
\<close>

lemma singleMatch_after_check_falsy:
  "\<not> truthy (if singleMatch \<noteq> JUndefined then JBoolean False else singleMatch)"
  by simp

lemma checkClassEntries_falsy:
  "\<not> truthy singleMatch \<Longrightarrow>
     checkClassEntries singleMatch searchClass searchFn elementClass =
       checkClassEntries JUndefined searchClass searchFn elementClass"
  by (simp add: checkClassEntries_def)

lemma contains_tryMethods_falsy:
  assumes "\<not> truthy singleMatch"
  shows "contains_tryMethods h e searchClass singleMatch =
       contains_tryMethods h e searchClass JUndefined"
proof -
  note eq = checkClassEntries_falsy [OF assms]
  have a: "contains_byClassList h e searchClass singleMatch =
      contains_byClassList h e searchClass JUndefined"
    by (simp add: contains_byClassList_def eq)
  have b: "contains_byClassName h e searchClass singleMatch =
      contains_byClassName h e searchClass JUndefined"
    by (simp add: contains_byClassName_def eq)
  have c: "contains_byAttribute h e searchClass singleMatch =
      contains_byAttribute h e searchClass JUndefined"
    by (cases "class_attr e") (simp_all add: contains_byAttribute_def eq)
  show ?thesis unfolding contains_tryMethods_def a b c by (rule refl)
qed

text \<open>
  Claim C8.  Two calls of \<^verbatim>\<open>containsCSSClass\<close> that agree on \<^verbatim>\<open>elementTarget\<close> and
  \<^verbatim>\<open>searchClass\<close> give the same outcome (the same Boolean, or the same exception)
  whatever is passed for \<^verbatim>\<open>singleMatch\<close>: the value that reaches \<^verbatim>\<open>checkClassEntries\<close> is
  \<^verbatim>\<open>false\<close> or \<^verbatim>\<open>undefined\<close>, so every method takes the branch that requires all class
  names.
\<close>

theorem C8_independent_of_singleMatch:
  "containsCSSClass h elementTarget searchClass singleMatch1 =
   containsCSSClass h elementTarget searchClass singleMatch2"
proof -
  have norm: "contains_tryMethods h e classes
        (if singleMatch \<noteq> JUndefined then JBoolean False else singleMatch) =
      contains_tryMethods h e classes JUndefined" for e classes singleMatch
    by (rule contains_tryMethods_falsy) (rule singleMatch_after_check_falsy)
  have "containsCSSClass h elementTarget searchClass singleMatch =
      containsCSSClass h elementTarget searchClass JUndefined" for singleMatch
    unfolding containsCSSClass_def norm by (rule refl)
  from this [of singleMatch1] this [of singleMatch2] show ?thesis by simp
qed


theorem C8_independent_of_singleMatch_witness:
  "containsCSSClass
     \<lparr>Element_defined = True, proto_keys = [], RegExp_test = (\<lambda>source subject. Inr False),
      testElement = \<lparr>instanceofElement = True, el_nodeType = 1,
        style_backgroundSize = Some (Some []), class_attr = None, has_classList = True,
        has_className = True, has_getAttribute = True, has_setAttribute = True\<rparr>\<rparr>
     (Some \<lparr>instanceofElement = True, el_nodeType = 1, style_backgroundSize = Some (Some []),
        class_attr = Some ''a b'', has_classList = True, has_className = True,
        has_getAttribute = True, has_setAttribute = True\<rparr>)
     (ClassString ''a c'') (JBoolean True) = Inr False"
proof -
  have "containsCSSClass
     \<lparr>Element_defined = True, proto_keys = [], RegExp_test = (\<lambda>source subject. Inr False),
      testElement = \<lparr>instanceofElement = True, el_nodeType = 1,
        style_backgroundSize = Some (Some []), class_attr = None, has_classList = True,
        has_className = True, has_getAttribute = True, has_setAttribute = True\<rparr>\<rparr>
     (Some \<lparr>instanceofElement = True, el_nodeType = 1, style_backgroundSize = Some (Some []),
        class_attr = Some ''a b'', has_classList = True, has_className = True,
        has_getAttribute = True, has_setAttribute = True\<rparr>)
     (ClassString ''a c'') JUndefined = Inr False"
    by code_simp
  then show ?thesis
    by (rule trans [OF C8_independent_of_singleMatch])
qed


section \<open>AddCSSClass.js\<close>

text \<open>
  The value passed as \<^verbatim>\<open>elementTarget\<close>: \<^verbatim>\<open>null\<close>; an Element (an object without a
  numeric \<^verbatim>\<open>length\<close>); a list object with a numeric \<^verbatim>\<open>length\<close> and its entries (an entry
  that is not an object is \<open>None\<close>); or any other value.  The call returns the value as it
  leaves it, since the elements are mutated in place.
\<close>

datatype element_arg = ArgNull | ArgElement element | ArgList "element option list" | ArgOther

text \<open>
  \<^verbatim>\<open>checkElementList()\<close>: \<^verbatim>\<open>typeof elementTarget === "object" && typeof
  elementTarget.length === "number"\<close>, a RangeError for an empty list; \<^verbatim>\<open>typeof null\<close> is
  \<^verbatim>\<open>"object"\<close>, and reading \<^verbatim>\<open>null.length\<close> is a TypeError of the engine.
\<close>

definition checkElementList :: "element_arg \<Rightarrow> error + bool" where
  "checkElementList elementTarget =
     (case elementTarget of
        ArgNull \<Rightarrow> Inl (TypeError ''Cannot read properties of null'')
      | ArgElement e \<Rightarrow> Inr False
      | ArgOther \<Rightarrow> Inr False
      | ArgList entries \<Rightarrow>
          (if entries = []
           then Inl (RangeError
             ''Parameter 1, \"elementTarget\", must not be an empty array or list data structure.'')
           else Inr True))"

text \<open>\<^verbatim>\<open>supportsCSS3()\<close> of \<^verbatim>\<open>addCSSClass\<close>:
  \<^verbatim>\<open>typeof this.testElement.style.backgroundSize === "string"\<close>.\<close>

definition add_supportsCSS3 :: "css_host \<Rightarrow> error + bool" where
  "add_supportsCSS3 h =
     (case style_backgroundSize (testElement h) of
        None \<Rightarrow> Inl (TypeError ''Cannot read properties of undefined'')
      | Some v \<Rightarrow> Inr (v \<noteq> None))"

text \<open>
  The three add methods, on an element of a host that has the method's API (the cascade
  decides that on \<^verbatim>\<open>testElement\<close>).  Each returns the Boolean of the source and the
  element as the call leaves it.  \<^verbatim>\<open>classList.add(token)\<close> throws for an empty token and
  for one with ASCII white space, and otherwise sets the attribute to the tokens joined by
  single spaces.  Assigning \<^verbatim>\<open>className\<close> and \<^verbatim>\<open>setAttribute("class", v)\<close> set the
  attribute.
\<close>

definition set_class :: "element \<Rightarrow> string \<Rightarrow> element" where
  "set_class e v = e\<lparr>class_attr := Some v\<rparr>"

fun join_tokens :: "string list \<Rightarrow> string" where
  "join_tokens [] = []"
| "join_tokens [t] = t"
| "join_tokens (t # ts) = t @ '' '' @ join_tokens ts"

definition classList_add :: "element \<Rightarrow> string \<Rightarrow> error + element" where
  "classList_add e token =
     (if token = [] then Inl (DOMException ''SyntaxError'')
      else if \<exists>c \<in> set token. is_ascii_space c then Inl (DOMException ''InvalidCharacterError'')
      else Inr (set_class e (join_tokens (classList_tokens e @ [token]))))"

definition byClassListAdd :: "css_host \<Rightarrow> element \<Rightarrow> string \<Rightarrow> error + bool \<times> element" where
  "byClassListAdd h elementEntry cssClass =
     (if cssClass \<in> set (classList_tokens elementEntry) then Inr (False, elementEntry)
      else
        (case classList_add elementEntry cssClass of
           Inl err \<Rightarrow> Inl err
         | Inr e' \<Rightarrow> Inr (True, e')))"

text \<open>\<^verbatim>\<open>/[\s\uFEFF\xA0]$/.test(s)\<close>\<close>

definition ends_with_space :: "string \<Rightarrow> bool" where
  "ends_with_space s = (s \<noteq> [] \<and> is_space (last s))"

definition append_class :: "string \<Rightarrow> string \<Rightarrow> string" where
  "append_class classValue cssClass =
     (if ends_with_space classValue then classValue @ cssClass
      else classValue @ '' '' @ cssClass)"

definition byClassNameAdd :: "css_host \<Rightarrow> element \<Rightarrow> string \<Rightarrow> error + bool \<times> element" where
  "byClassNameAdd h elementEntry cssClass =
     (case RegExp_test h (word_boundary @ cssClass @ word_boundary) (className elementEntry) of
        Inl err \<Rightarrow> Inl err
      | Inr True \<Rightarrow> Inr (False, elementEntry)
      | Inr False \<Rightarrow>
          Inr (True, set_class elementEntry (append_class (className elementEntry) cssClass)))"

definition byAttributeAdd :: "css_host \<Rightarrow> element \<Rightarrow> string \<Rightarrow> error + bool \<times> element" where
  "byAttributeAdd h elementEntry cssClass =
     (case class_attr elementEntry of
        None \<Rightarrow> Inr (True, set_class elementEntry cssClass)
      | Some classValue \<Rightarrow>
          (if classValue = [] then Inr (True, set_class elementEntry cssClass)
           else
             (case RegExp_test h (word_boundary @ cssClass @ word_boundary) classValue of
                Inl err \<Rightarrow> Inl err
              | Inr True \<Rightarrow> Inr (False, elementEntry)
              | Inr False \<Rightarrow>
                  Inr (True, set_class elementEntry (append_class classValue cssClass)))))"

text \<open>
  The clean-up functions: \<^verbatim>\<open>s.trim().replace(/[\s\uFEFF\xA0]{2,}/, " ")\<close> replaces the
  first run of two or more white-space characters by one space.
\<close>

fun replace_first_run :: "string \<Rightarrow> string" where
  "replace_first_run (c # d # rest) =
     (if is_space c \<and> is_space d then CHR '' '' # dropWhile is_space rest
      else c # replace_first_run (d # rest))"
| "replace_first_run s = s"

definition byClassNameCleanup :: "element \<Rightarrow> element" where
  "byClassNameCleanup elementEntry =
     set_class elementEntry (replace_first_run (trim (className elementEntry)))"

definition byAttributeCleanup :: "element \<Rightarrow> element" where
  "byAttributeCleanup elementEntry =
     (case class_attr elementEntry of
        None \<Rightarrow> elementEntry
      | Some classValue \<Rightarrow>
          (if classValue = [] then elementEntry
           else set_class elementEntry (replace_first_run (trim classValue))))"

definition getCleanupFn :: "css_host \<Rightarrow> (element \<Rightarrow> element) option" where
  "getCleanupFn h =
     (if has_className (testElement h) then Some byClassNameCleanup
      else if has_getAttribute (testElement h) \<and> has_setAttribute (testElement h)
        then Some byAttributeCleanup
      else None)"

text \<open>
  \<^verbatim>\<open>addEachClass(elementEntry, addFn, cleanupFn)\<close> returns the number of class names
  added; \<open>add_loop\<close> is its \<^verbatim>\<open>for\<close> loop over \<^verbatim>\<open>newClass\<close>.
\<close>

fun add_loop ::
    "(element \<Rightarrow> string \<Rightarrow> error + bool \<times> element) \<Rightarrow> element \<Rightarrow> string list \<Rightarrow> nat
      \<Rightarrow> error + nat \<times> element" where
  "add_loop addFn elementEntry [] numAdded = Inr (numAdded, elementEntry)"
| "add_loop addFn elementEntry (cssClass # rest) numAdded =
     (case addFn elementEntry cssClass of
        Inl err \<Rightarrow> Inl err
      | Inr (True, e') \<Rightarrow> add_loop addFn e' rest (numAdded + 1)
      | Inr (False, e') \<Rightarrow> add_loop addFn e' rest numAdded)"

definition addEachClass ::
    "(element \<Rightarrow> string \<Rightarrow> error + bool \<times> element) \<Rightarrow> (element \<Rightarrow> element) option
      \<Rightarrow> string list \<Rightarrow> element \<Rightarrow> error + nat \<times> element" where
  "addEachClass addFn cleanupFn newClass elementEntry =
     (case add_loop addFn elementEntry newClass 0 of
        Inl err \<Rightarrow> Inl err
      | Inr (numAdded, e') \<Rightarrow>
          Inr (numAdded, case cleanupFn of None \<Rightarrow> e' | Some cleanup \<Rightarrow> cleanup e'))"

text \<open>
  \<^verbatim>\<open>listByMethod(addFn, cleanupFn)\<close>: the entries that are Elements and had at least one
  class name added are counted; the others are skipped.
\<close>

fun listByMethod ::
    "css_host \<Rightarrow> (element \<Rightarrow> string \<Rightarrow> error + bool \<times> element) \<Rightarrow> (element \<Rightarrow> element) option
      \<Rightarrow> string list \<Rightarrow> element option list \<Rightarrow> error + nat \<times> element option list" where
  "listByMethod h addFn cleanupFn newClass [] = Inr (0, [])"
| "listByMethod h addFn cleanupFn newClass (None # rest) =
     (case listByMethod h addFn cleanupFn newClass rest of
        Inl err \<Rightarrow> Inl err
      | Inr (numEdited, rest') \<Rightarrow> Inr (numEdited, None # rest'))"
| "listByMethod h addFn cleanupFn newClass (Some e # rest) =
     (if css_isElement h (Some e) then
        (case addEachClass addFn cleanupFn newClass e of
           Inl err \<Rightarrow> Inl err
         | Inr (numAdded, e') \<Rightarrow>
             (case listByMethod h addFn cleanupFn newClass rest of
                Inl err \<Rightarrow> Inl err
              | Inr (numEdited, rest') \<Rightarrow>
                  Inr ((if numAdded \<noteq> 0 then 1 else 0) + numEdited, Some e' # rest')))
      else
        (case listByMethod h addFn cleanupFn newClass rest of
           Inl err \<Rightarrow> Inl err
         | Inr (numEdited, rest') \<Rightarrow> Inr (numEdited, Some e # rest')))"

text \<open>
  After \<^verbatim>\<open>checkParameters()\<close> the target is a list (\<^verbatim>\<open>hasElementList\<close> is true) or one
  Element.
\<close>

datatype checked_target = OneElement element | ElementList "element option list"

definition target_arg :: "checked_target \<Rightarrow> element_arg" where
  "target_arg target =
     (case target of OneElement e \<Rightarrow> ArgElement e | ElementList entries \<Rightarrow> ArgList entries)"

text \<open>
  \<^verbatim>\<open>byMethod(supportTestFn, addFn, cleanupFn)\<close> returns \<open>None\<close> for \<^verbatim>\<open>undefined\<close>.
\<close>

definition byMethod ::
    "css_host \<Rightarrow> bool \<Rightarrow> (element \<Rightarrow> string \<Rightarrow> error + bool \<times> element)
      \<Rightarrow> (element \<Rightarrow> element) option \<Rightarrow> string list \<Rightarrow> checked_target
      \<Rightarrow> (error + nat \<times> checked_target) option" where
  "byMethod h supported addFn cleanupFn newClass elementTarget =
     (if \<not> supported then None
      else
        (case elementTarget of
           ElementList entries \<Rightarrow>
             Some (case listByMethod h addFn cleanupFn newClass entries of
                     Inl err \<Rightarrow> Inl err
                   | Inr (numEdited, entries') \<Rightarrow> Inr (numEdited, ElementList entries'))
         | OneElement e \<Rightarrow>
             Some (case addEachClass addFn cleanupFn newClass e of
                     Inl err \<Rightarrow> Inl err
                   | Inr (numAdded, e') \<Rightarrow>
                       Inr (if numAdded \<noteq> 0 then 1 else 0, OneElement e'))))"

definition add_tryMethods ::
    "css_host \<Rightarrow> string list \<Rightarrow> checked_target \<Rightarrow> error + nat \<times> checked_target" where
  "add_tryMethods h newClass elementTarget =
     (case byMethod h (has_classList (testElement h)) (byClassListAdd h) (getCleanupFn h)
             newClass elementTarget of
        Some result \<Rightarrow> result
      | None \<Rightarrow>
          (case byMethod h (has_className (testElement h)) (byClassNameAdd h)
                  (Some byClassNameCleanup) newClass elementTarget of
             Some result \<Rightarrow> result
           | None \<Rightarrow>
               (case byMethod h
                       (has_getAttribute (testElement h) \<and> has_setAttribute (testElement h))
                       (byAttributeAdd h) (Some byAttributeCleanup) newClass elementTarget of
                  Some result \<Rightarrow> result
                | None \<Rightarrow>
                    Inl (ReferenceError
                      ''No JavaScript functionality for adding new CSS class name entries found.''))))"

text \<open>
  The first test of \<^verbatim>\<open>checkParameters()\<close>:
  \<^verbatim>\<open>if (!this.checkElementList() && !this.isElement(elementTarget)) throw new TypeError(...)\<close>.
\<close>

definition checkElementTarget :: "css_host \<Rightarrow> element_arg \<Rightarrow> error + checked_target" where
  "checkElementTarget h elementTarget =
     (case checkElementList elementTarget of
        Inl err \<Rightarrow> Inl err
      | Inr hasElementList \<Rightarrow>
          (case elementTarget of
             ArgList entries \<Rightarrow> Inr (ElementList entries)
           | ArgElement e \<Rightarrow>
               (if css_isElement h (Some e) then Inr (OneElement e)
                else Inl (TypeError ''Parameter 1, \"elementTarget\", must either be an Element object or an array-like list.''))
           | _ \<Rightarrow> Inl (TypeError ''Parameter 1, \"elementTarget\", must either be an Element object or an array-like list.'')))"

text \<open>
  \<^verbatim>\<open>addCSSClass(elementTarget, newClass)\<close>: \<^verbatim>\<open>checkParameters()\<close>, then \<^verbatim>\<open>tryMethods()\<close>.  The
  result is the number of edited Elements and the target after the call.
\<close>

definition addCSSClass ::
    "css_host \<Rightarrow> element_arg \<Rightarrow> class_arg \<Rightarrow> error + nat \<times> element_arg" where
  "addCSSClass h elementTarget newClass =
     (case checkElementTarget h elementTarget of
        Inl err \<Rightarrow> Inl err
      | Inr target \<Rightarrow>
          (case add_supportsCSS3 h of
             Inl err \<Rightarrow> Inl err
           | Inr css3 \<Rightarrow>
               (case checkClassParameter h css3 True newClass of
                  Inl err \<Rightarrow> Inl err
                | Inr classes \<Rightarrow>
                    (case add_tryMethods h classes target of
                       Inl err \<Rightarrow> Inl err
                     | Inr (numEdited, target') \<Rightarrow> Inr (numEdited, target_arg target')))))"

text \<open>
  A regular-expression engine for the patterns the source builds from class names made
  of letters, digits, underscores and hyphens: \<^verbatim>\<open>\b\<close> at both ends of a text that matches
  itself.  \<^verbatim>\<open>\b\<close> holds at a position when exactly one of the characters before and after
  it is a word character (\<^verbatim>\<open>\w\<close>).
\<close>

definition word_at :: "string \<Rightarrow> nat \<Rightarrow> bool" where
  "word_at s p = (p < length s \<and> is_word (s ! p))"

definition boundary_at :: "string \<Rightarrow> nat \<Rightarrow> bool" where
  "boundary_at s p = ((0 < p \<and> word_at s (p - 1)) \<noteq> word_at s p)"

definition literal_between_boundaries :: "string \<Rightarrow> string \<Rightarrow> bool" where
  "literal_between_boundaries lit subject =
     (\<exists>i \<in> set [0 ..< Suc (length subject - length lit)].
        take (length lit) (drop i subject) = lit \<and>
        boundary_at subject i \<and> boundary_at subject (i + length lit))"

definition literal_RegExp_test :: "string \<Rightarrow> string \<Rightarrow> error + bool" where
  "literal_RegExp_test source subject =
     (if take 2 source = word_boundary \<and> 4 \<le> length source \<and>
         drop (length source - 2) source = word_boundary
      then Inr (literal_between_boundaries (take (length source - 4) (drop 2 source)) subject)
      else Inl (SyntaxError ''not a pattern between two word boundaries''))"

definition legacy_host :: css_host where
  "legacy_host =
     \<lparr>Element_defined = True, proto_keys = [], RegExp_test = literal_RegExp_test,
      testElement = \<lparr>instanceofElement = True, el_nodeType = 1,
        style_backgroundSize = Some (Some []), class_attr = None, has_classList = False,
        has_className = True, has_getAttribute = True, has_setAttribute = True\<rparr>\<rparr>"

definition div_with_class :: "string \<Rightarrow> element" where
  "div_with_class v =
     \<lparr>instanceofElement = True, el_nodeType = 1, style_backgroundSize = Some (Some []),
      class_attr = Some v, has_classList = False, has_className = True,
      has_getAttribute = True, has_setAttribute = True\<rparr>"

definition modern_host :: css_host where
  "modern_host =
     \<lparr>Element_defined = True, proto_keys = [], RegExp_test = literal_RegExp_test,
      testElement = \<lparr>instanceofElement = True, el_nodeType = 1,
        style_backgroundSize = Some (Some []), class_attr = None, has_classList = True,
        has_className = True, has_getAttribute = True, has_setAttribute = True\<rparr>\<rparr>"

definition attribute_host :: css_host where
  "attribute_host =
     \<lparr>Element_defined = True, proto_keys = [], RegExp_test = literal_RegExp_test,
      testElement = \<lparr>instanceofElement = True, el_nodeType = 1,
        style_backgroundSize = Some (Some []), class_attr = None, has_classList = False,
        has_className = False, has_getAttribute = True, has_setAttribute = True\<rparr>\<rparr>"

text \<open>
  With \<^verbatim>\<open>classList\<close> the add loop adds nothing to an element that has every class name
  already, and counts nothing.
\<close>

lemma add_loop_classList_present:
  "set newClass \<subseteq> set (classList_tokens e) \<Longrightarrow>
     add_loop (byClassListAdd h) e newClass numAdded = Inr (numAdded, e)"
  by (induction newClass arbitrary: numAdded) (simp_all add: byClassListAdd_def)

text \<open>
  Claim C9 (the code departs from it).  An element whose \<^verbatim>\<open>class\<close> attribute is
  \<^verbatim>\<open>-foo\<close> contains the class name \<^verbatim>\<open>-foo\<close>, a name the CSS1/CSS2 check of the source
  accepts.  With \<^verbatim>\<open>classList\<close> the call adds nothing and returns 0.  Without it, the
  \<^verbatim>\<open>className\<close> method and the attribute method look for \<^verbatim>\<open>\b-foo\b\<close>, which cannot match
  because there is no word boundary before a hyphen that starts the text or follows a
  space: the name is appended once more and the call returns 1, at every call.
\<close>

theorem C9_leading_hyphen_added_again:
  "classList_tokens (div_with_class ''-foo'') = [''-foo''] \<and>
   css12_name ''-foo'' \<and>
   checkClassParameter legacy_host False True (ClassString ''-foo'') = Inr [''-foo''] \<and>
   checkClassParameter legacy_host True True (ClassString ''-foo'') = Inr [''-foo''] \<and>
   addCSSClass modern_host (ArgElement (div_with_class ''-foo'')) (ClassString ''-foo'') =
     Inr (0, ArgElement (div_with_class ''-foo'')) \<and>
   addCSSClass legacy_host (ArgElement (div_with_class ''-foo'')) (ClassString ''-foo'') =
     Inr (1, ArgElement (div_with_class ''-foo -foo'')) \<and>
   addCSSClass legacy_host (ArgElement (div_with_class ''-foo -foo'')) (ClassString ''-foo'') =
     Inr (1, ArgElement (div_with_class ''-foo -foo -foo'')) \<and>
   addCSSClass attribute_host (ArgElement (div_with_class ''-foo'')) (ClassString ''-foo'') =
     Inr (1, ArgElement (div_with_class ''-foo -foo''))"
  by code_simp


section \<open>ReplaceNode.js: replacing one Node by one Node\<close>

text \<open>
  What \<^verbatim>\<open>replaceNode\<close> reads of a Node: its identity, its node type, whether it is an
  instance of \<^verbatim>\<open>HTMLDocument\<close>, its numeric \<^verbatim>\<open>length\<close> property if it has one (character
  data, forms and select elements have one), its \<^verbatim>\<open>parentNode\<close>, whether it has a first
  child, and which of \<^verbatim>\<open>replaceWith\<close>, the parent's \<^verbatim>\<open>replaceChild\<close> and a string-typed
  \<^verbatim>\<open>outerHTML\<close> exist.
\<close>

record rnode =
  rn_id :: nat
  rn_nodeType :: nat
  rn_HTMLDocument :: bool
  rn_length :: "nat option"
  rn_parentNode :: "nat option"
  rn_firstChild :: bool
  rn_replaceWith :: bool
  rn_parent_replaceChild :: bool
  rn_outerHTML :: bool

text \<open>
  The steps a replacement makes, in order.  \<open>src\<close> tells whether \<^verbatim>\<open>src\<close> is the replacement
  itself or its deep clone.  \<open>RemoveChildren\<close> and \<open>CopyToTarget\<close> stand for the loops of
  \<^verbatim>\<open>removeChild\<close> and \<^verbatim>\<open>appendChild\<close> calls of the helper methods \<^verbatim>\<open>removeChildren\<close> and
  \<^verbatim>\<open>copyToTarget\<close>; the last three steps write to an Array and are no calls of the host.
\<close>

datatype src = TheReplacement | CloneOfReplacement

datatype action =
    CloneNode nat
  | RemoveChildren nat
  | CopyToTarget src nat bool
  | AppendChild nat src
  | ReplaceWith nat src
  | ReplaceChild nat src nat
  | SetOuterHTML nat src
  | AssignArrayEntry nat nat
  | PushReplNode_src src
  | PushReplNode_orig nat

fun is_host_call :: "action \<Rightarrow> bool" where
  "is_host_call (AssignArrayEntry i r) = False"
| "is_host_call (PushReplNode_src s) = False"
| "is_host_call (PushReplNode_orig n) = False"
| "is_host_call a = True"

text \<open>
  The host: the globals tested with \<^verbatim>\<open>typeof X !== "undefined"\<close>, and the exceptions of its
  DOM.  A call of the host can throw (a HierarchyRequestError when a node is inserted into
  itself or into one of its descendants, for example): \<open>dom_exception h made a\<close> is the
  exception the call \<open>a\<close> throws after the steps \<open>made\<close>, and \<open>None\<close> when it returns.
\<close>

record replace_host =
  HTMLDocument_defined :: bool
  DocumentFragment_defined :: bool
  dom_exception :: "action list \<Rightarrow> action \<Rightarrow> error option"

definition isDocument :: "replace_host \<Rightarrow> rnode \<Rightarrow> bool" where
  "isDocument h obj =
     (if HTMLDocument_defined h then rn_HTMLDocument obj else rn_nodeType obj = 9)"

text \<open>A node is an instance of \<^verbatim>\<open>DocumentFragment\<close> exactly when its node type is 11.\<close>

definition isDocumentFragment :: "replace_host \<Rightarrow> rnode \<Rightarrow> bool" where
  "isDocumentFragment h obj =
     (if DocumentFragment_defined h then rn_nodeType obj = 11 else rn_nodeType obj = 11)"

text \<open>
  The \<^verbatim>\<open>options\<close> argument: \<^verbatim>\<open>undefined\<close>, a non-null object with its three flags, or any
  other value (\<^verbatim>\<open>null\<close> or not an object).  \<^verbatim>\<open>checkOptions()\<close> gives the flags
  \<^verbatim>\<open>copyNodes\<close>, \<^verbatim>\<open>getNewList\<close>, \<^verbatim>\<open>replaceOnce\<close>.  They are properties of \<^verbatim>\<open>this\<close>, the
  global object in a plain call: with \<^verbatim>\<open>options\<close> undefined \<^verbatim>\<open>checkOptions\<close> returns at
  once and the flags stay as \<open>prior\<close>, what an earlier call left (all falsy at first).
\<close>

datatype options_arg = OptUndefined | OptObject bool bool bool | OptInvalid

record flags =
  copyNodes :: bool
  getNewList :: bool
  replaceOnce :: bool

definition checkOptions :: "flags \<Rightarrow> options_arg \<Rightarrow> error + flags" where
  "checkOptions prior options =
     (case options of
        OptUndefined \<Rightarrow> Inr prior
      | OptObject c g r \<Rightarrow> Inr \<lparr>copyNodes = c, getNewList = g, replaceOnce = r\<rparr>
      | OptInvalid \<Rightarrow>
          Inl (TypeError
            ''Value passed to \"options\" parameter must be a non-null object with option entries.''))"

text \<open>
  \<^verbatim>\<open>checkParamList(paramVal, paramName)\<close> on a Node (an object): false without a numeric
  \<^verbatim>\<open>length\<close>, true with a non-zero one, and a RangeError with \<^verbatim>\<open>length\<close> zero.
\<close>

definition checkParamList :: "rnode \<Rightarrow> string \<Rightarrow> error + bool" where
  "checkParamList paramVal paramName =
     (case rn_length paramVal of
        None \<Rightarrow> Inr False
      | Some len \<Rightarrow>
          (if len \<noteq> 0 then Inr True
           else Inl (RangeError (''The value passed to parameter \"'' @ paramName @
             ''\" must not be an empty list data structure.''))))"

text \<open>
  A run: the steps that were made, and the exception thrown or the Boolean returned.
  \<open>perform\<close> makes the steps of a branch in order and stops at the first call of the host
  that throws.
\<close>

record run =
  actions :: "action list"
  outcome :: "error + bool"

fun perform ::
    "(action list \<Rightarrow> action \<Rightarrow> error option) \<Rightarrow> action list \<Rightarrow> action list
      \<Rightarrow> action list \<times> error option" where
  "perform throws made [] = (made, None)"
| "perform throws made (a # rest) =
     (case (if is_host_call a then throws made a else None) of
        Some e \<Rightarrow> (made, Some e)
      | None \<Rightarrow> perform throws (made @ [a]) rest)"

definition run_steps :: "replace_host \<Rightarrow> action list \<Rightarrow> bool \<Rightarrow> run" where
  "run_steps h steps result =
     (case perform (dom_exception h) [] steps of
        (made, None) \<Rightarrow> \<lparr>actions = made, outcome = Inr result\<rparr>
      | (made, Some e) \<Rightarrow> \<lparr>actions = made, outcome = Inl e\<rparr>)"

text \<open>
  \<^verbatim>\<open>directReplaceMethods(oldNode, newNode)\<close>: \<^verbatim>\<open>tryReplaceWith\<close>, \<^verbatim>\<open>tryReplaceChild\<close>,
  \<^verbatim>\<open>tryOuterHTML\<close>, the first that is supported; false when none is.  On this path
  \<^verbatim>\<open>oldNode.parentNode\<close> is not null.
\<close>

definition directReplaceMethods :: "rnode \<Rightarrow> src \<Rightarrow> action list \<times> bool" where
  "directReplaceMethods oldNode newNode =
     (if rn_replaceWith oldNode then ([ReplaceWith (rn_id oldNode) newNode], True)
      else
        (case (if rn_parent_replaceChild oldNode then rn_parentNode oldNode else None) of
           Some nodeParent \<Rightarrow> ([ReplaceChild nodeParent newNode (rn_id oldNode)], True)
         | None \<Rightarrow>
             (if rn_outerHTML oldNode then ([SetOuterHTML (rn_id oldNode) newNode], True)
              else ([], False))))"

text \<open>
  \<^verbatim>\<open>byDirectReplace(origNode, index)\<close>.  \<open>index\<close> is \<open>None\<close> when the argument is not
  passed (\<^verbatim>\<open>typeof index === "number"\<close> is false), and \<open>isArray\<close> is
  \<^verbatim>\<open>original instanceof Array\<close>.
\<close>

definition byDirectReplace ::
    "replace_host \<Rightarrow> flags \<Rightarrow> rnode \<Rightarrow> bool \<Rightarrow> rnode \<Rightarrow> nat option \<Rightarrow> run" where
  "byDirectReplace h f replacement isArray origNode index =
     (if isDocument h replacement then
        (if isDocument h origNode then
           run_steps h
             [RemoveChildren (rn_id origNode),
              CopyToTarget TheReplacement (rn_id origNode) (copyNodes f)]
             True
         else
           \<lparr>actions = [],
            outcome = Inl (TypeError
              (''The value passed to the \"origNode\" parameter must be a Document node if its '' @
               ''\"head\" and \"body\" sections are to be replaced by those from the Document '' @
               ''node passed to the \"replacement\" parameter.''))\<rparr>)
      else
        (let src = (if copyNodes f then CloneOfReplacement else TheReplacement);
             cloned = (if copyNodes f then [CloneNode (rn_id replacement)] else [])
         in
           if isDocumentFragment h origNode then
             run_steps h
               (cloned @ [RemoveChildren (rn_id origNode), AppendChild (rn_id origNode) src])
               True
           else if rn_parentNode origNode \<noteq> None then
             (case directReplaceMethods origNode src of
                (steps, result) \<Rightarrow>
                  run_steps h
                    (cloned @ steps @
                       (if result \<and> getNewList f \<and> \<not> isDocumentFragment h replacement
                        then [PushReplNode_src src] else []))
                    result)
           else
             (case (if isArray then index else None) of
                Some i \<Rightarrow> run_steps h (cloned @ [AssignArrayEntry i (rn_id replacement)]) True
              | None \<Rightarrow>
                  run_steps h
                    (cloned @ [RemoveChildren (rn_id origNode)] @
                       (if rn_firstChild replacement
                        then [CopyToTarget src (rn_id origNode) (copyNodes f)]
                        else [AppendChild (rn_id origNode) TheReplacement]) @
                       (if getNewList f then [PushReplNode_orig (rn_id origNode)] else []))
                    True)))"

text \<open>
  \<^verbatim>\<open>replaceNode(original, replacement, options)\<close> for a single Node \<^verbatim>\<open>original\<close> and a single
  Node \<^verbatim>\<open>replacement\<close>: \<^verbatim>\<open>tryMethods\<close> runs \<^verbatim>\<open>checkOptions()\<close> and
  \<^verbatim>\<open>checkParamList(original, "original")\<close>, finds \<^verbatim>\<open>isNode(replacement)\<close> true and calls
  \<^verbatim>\<open>tryReplacingOrig(this.byDirectReplace)\<close>, which finds \<^verbatim>\<open>isNode(original)\<close> true and
  calls \<^verbatim>\<open>replaceFn(original)\<close> with no index.  The Boolean of the run is the truth of what
  \<^verbatim>\<open>replaceFn\<close> returned (the call then returns 1 or \<^verbatim>\<open>replNode[0]\<close>, or 0).
\<close>

definition replaceNode ::
    "replace_host \<Rightarrow> flags \<Rightarrow> rnode \<Rightarrow> rnode \<Rightarrow> options_arg \<Rightarrow> run" where
  "replaceNode h prior original replacement options =
     (case checkOptions prior options of
        Inl e \<Rightarrow> \<lparr>actions = [], outcome = Inl e\<rparr>
      | Inr f \<Rightarrow>
          (case checkParamList original ''original'' of
             Inl e \<Rightarrow> \<lparr>actions = [], outcome = Inl e\<rparr>
           | Inr isOrigList \<Rightarrow> byDirectReplace h f replacement False original None))"


section \<open>replaceNode on a Node with a length\<close>

text \<open>
  A Node without a numeric \<^verbatim>\<open>length\<close> of zero reaches the decision tree of
  \<^verbatim>\<open>byDirectReplace\<close> whenever \<^verbatim>\<open>options\<close> is accepted.
\<close>

lemma replaceNode_reaches_byDirectReplace:
  assumes "checkOptions prior options = Inr f" and "rn_length original \<noteq> Some 0"
  shows "replaceNode h prior original replacement options =
    byDirectReplace h f replacement False original None"
proof -
  from assms(2) have "\<exists>isOrigList. checkParamList original ''original'' = Inr isOrigList"
    by (cases "rn_length original") (auto simp: checkParamList_def)
  then obtain isOrigList where "checkParamList original ''original'' = Inr isOrigList" ..
  with assms(1) show ?thesis by (simp add: replaceNode_def)
qed

text \<open>
  Two Text nodes attached to the same parent, one without data and one with the data
  \<^verbatim>\<open>"text"\<close>, a new \<^verbatim>\<open>span\<close> element, and a host in which no call of the DOM throws.
\<close>

definition no_flags :: flags where
  "no_flags = \<lparr>copyNodes = False, getNewList = False, replaceOnce = False\<rparr>"

definition empty_text_node :: rnode where
  "empty_text_node =
     \<lparr>rn_id = 1, rn_nodeType = 3, rn_HTMLDocument = False, rn_length = Some 0,
      rn_parentNode = Some 0, rn_firstChild = False, rn_replaceWith = True,
      rn_parent_replaceChild = True, rn_outerHTML = False\<rparr>"

definition text_node :: rnode where
  "text_node =
     \<lparr>rn_id = 1, rn_nodeType = 3, rn_HTMLDocument = False, rn_length = Some 4,
      rn_parentNode = Some 0, rn_firstChild = False, rn_replaceWith = True,
      rn_parent_replaceChild = True, rn_outerHTML = False\<rparr>"

definition new_span :: rnode where
  "new_span =
     \<lparr>rn_id = 3, rn_nodeType = 1, rn_HTMLDocument = False, rn_length = None,
      rn_parentNode = None, rn_firstChild = False, rn_replaceWith = True,
      rn_parent_replaceChild = False, rn_outerHTML = True\<rparr>"

definition quiet_host :: replace_host where
  "quiet_host =
     \<lparr>HTMLDocument_defined = True, DocumentFragment_defined = True,
      dom_exception = (\<lambda>made a. None)\<rparr>"

text \<open>
  Claim C4 (the code departs from it).  An empty Text node is a single Node, and its
  \<^verbatim>\<open>length\<close> is the number 0: \<^verbatim>\<open>checkParamList\<close> takes it for an empty list and throws the
  RangeError before \<^verbatim>\<open>byDirectReplace\<close> is called, so no special case runs and no step is
  made, in every host, with every replacement and whatever the flags.  The Text node with
  data, equal to it in everything else, is an attached original and is replaced by
  \<^verbatim>\<open>replaceWith\<close>.
\<close>

theorem C4_empty_text_node_not_replaced:
  "(\<forall>h prior replacement.
      replaceNode h prior empty_text_node replacement OptUndefined =
        \<lparr>actions = [],
         outcome = Inl (RangeError
           ''The value passed to parameter \"original\" must not be an empty list data structure.'')\<rparr>) \<and>
   replaceNode quiet_host no_flags text_node new_span OptUndefined =
     \<lparr>actions = [ReplaceWith 1 TheReplacement], outcome = Inr True\<rparr>"
  by (simp add: replaceNode_def checkOptions_def checkParamList_def empty_text_node_def
      text_node_def new_span_def no_flags_def quiet_host_def byDirectReplace_def isDocument_def
      isDocumentFragment_def directReplaceMethods_def run_steps_def)

end
